theory Spec2Isabelle
  imports Complex_Main "HOL-Library.Char_ord" "HOL-Library.List_Lexorder" "HOL-Library.Multiset"
begin

section \<open>BlackRoad crypto tracker: the ledger and valuation engine\<close>

text \<open>
  A shallow embedding of the class \<^verbatim>\<open>CryptoTracker\<close> of \<^verbatim>\<open>src/crypto_tracker.py\<close>.

  \<^item> The SQLite database is a record of its three tables, each a list of rows in
    insertion (rowid) order. Every method takes the store and returns the new one.
  \<^item> Python's \<^verbatim>\<open>float\<close> is modelled by \<^typ>\<open>real\<close> with exact arithmetic: the
    theorems are about the structure of the computation (what is summed, clamped,
    filtered, sorted, rounded and where), not about binary rounding error, overflow
    or infinities.
  \<^item> The float arguments of \<^verbatim>\<open>record_transaction\<close> are a number or NaN (\<open>py_float\<close>):
    \<^verbatim>\<open>float("nan")\<close> is a float the command line accepts, sqlite3 binds it as NULL,
    and the columns \<^verbatim>\<open>quantity\<close> and \<^verbatim>\<open>price_usd\<close> are \<^verbatim>\<open>NOT NULL\<close>.
  \<^item> \<^verbatim>\<open>datetime.now().isoformat()\<close> is the extra argument \<open>now\<close> of each method that
    reads the clock.
  \<^item> A float division is fallible (\<^verbatim>\<open>ZeroDivisionError\<close>) and so is the insertion of
    NULL into a \<^verbatim>\<open>NOT NULL\<close> column (\<^verbatim>\<open>sqlite3.IntegrityError\<close>), so each method that
    can raise returns \<open>py_error + result\<close>; an exception leaves the \<^verbatim>\<open>with conn\<close> block by
    a rollback, so the error value carries no store.
\<close>

subsection \<open>Python and SQLite primitives\<close>

datatype py_error = ZeroDivisionError | IntegrityError

datatype py_float = Num real | NaN

definition py_div :: "real \<Rightarrow> real \<Rightarrow> py_error + real" where
  "py_div a b = (if b = 0 then Inl ZeroDivisionError else Inr (a / b))"

text \<open>\<^verbatim>\<open>str.upper()\<close>, on ASCII letters (a \<^typ>\<open>char\<close> is a byte).\<close>

definition upper_char :: "char \<Rightarrow> char" where
  "upper_char c =
     (let n = (of_char c :: nat) in if 97 \<le> n \<and> n \<le> 122 then char_of (n - 32) else c)"

definition upper :: "string \<Rightarrow> string" where
  "upper s = map upper_char s"

text \<open>
  \<^verbatim>\<open>round(x, ndigits)\<close>: Python rounds the exact value of the float to the nearest
  multiple of \<open>10 ^ -ndigits\<close>, a tie going to the even neighbour.
\<close>

definition round_half_even :: "real \<Rightarrow> int" where
  "round_half_even x =
     (let f = \<lfloor>x\<rfloor>; d = x - of_int f
      in if d < 1/2 then f else if d > 1/2 then f + 1 else if even f then f else f + 1)"

definition py_round :: "real \<Rightarrow> nat \<Rightarrow> real" where
  "py_round x ndigits = of_int (round_half_even (x * 10 ^ ndigits)) / 10 ^ ndigits"

text \<open>
  \<^verbatim>\<open>ORDER BY key DESC\<close>: rows by descending key. SQLite leaves the order of rows with
  equal keys open; the model keeps them in rowid order.
\<close>

fun insert_desc :: "('a \<Rightarrow> 'k::linorder) \<Rightarrow> 'a \<Rightarrow> 'a list \<Rightarrow> 'a list" where
  "insert_desc key x [] = [x]"
| "insert_desc key x (y # ys) =
     (if key y \<le> key x then x # y # ys else y # insert_desc key x ys)"

definition order_by_desc :: "('a \<Rightarrow> 'k::linorder) \<Rightarrow> 'a list \<Rightarrow> 'a list" where
  "order_by_desc key rows = foldr (insert_desc key) rows []"

text \<open>
  The format specifications \<^verbatim>\<open>,.2f\<close>, \<^verbatim>\<open>+,.2f\<close> and \<^verbatim>\<open>+.2f\<close>: two decimals of the
  rounded magnitude, the sign of the unrounded value (\<^verbatim>\<open>-0.00\<close> for a small negative
  number), \<^verbatim>\<open>+\<close> for a non-negative value when asked for, a comma between groups of
  three integer digits when asked for.
\<close>

definition digit_char :: "nat \<Rightarrow> char" where
  "digit_char n = char_of (48 + n)"

function digits :: "nat \<Rightarrow> string" where
  "digits n = (if n < 10 then [digit_char n] else digits (n div 10) @ [digit_char (n mod 10)])"
  by pat_completeness auto
termination
  by (relation "measure (\<lambda>n. n)") auto

function group_thousands :: "string \<Rightarrow> string" where
  "group_thousands s =
     (if length s \<le> 3 then s
      else group_thousands (take (length s - 3) s) @ '','' @ drop (length s - 3) s)"
  by pat_completeness auto
termination
  by (relation "measure length") auto

definition format_2f :: "bool \<Rightarrow> bool \<Rightarrow> real \<Rightarrow> string" where
  "format_2f always_sign comma x =
     (let n = nat (round_half_even (\<bar>x\<bar> * 100));
          sign = (if x < 0 then ''-'' else if always_sign then ''+'' else '''');
          int_part = digits (n div 100);
          frac_part = [digit_char (n div 10 mod 10), digit_char (n mod 10)]
      in sign @ (if comma then group_thousands int_part else int_part) @ ''.'' @ frac_part)"

subsection \<open>Dataclasses and tables\<close>

text \<open>
  One record per dataclass; a table row is the same record with \<open>id = Some rowid\<close>.
  The field \<^verbatim>\<open>symbol\<close>, \<^verbatim>\<open>price_usd\<close> and \<^verbatim>\<open>id\<close> of the three classes carry a prefix.
  A stored transaction has a number for its quantity and its price (the columns are
  \<^verbatim>\<open>NOT NULL\<close>); its fee is a number or NaN, the column \<^verbatim>\<open>fee_usd\<close> being nullable (a
  NaN fee is stored as NULL).
\<close>

record holding =
  h_symbol :: string
  name :: string
  total_qty :: real
  avg_cost :: real
  current_price :: real
  created_at :: string
  h_id :: "nat option"

record transaction =
  t_symbol :: string
  tx_type :: string
  quantity :: real
  t_price_usd :: real
  fee_usd :: py_float
  exchange :: string
  tx_date :: string
  t_id :: "nat option"

record price_record =
  p_symbol :: string
  p_price_usd :: real
  source :: string
  recorded_at :: string
  p_id :: "nat option"

text \<open>The constructors with their \<^verbatim>\<open>__post_init__\<close>: an empty timestamp becomes \<open>now\<close>.\<close>

definition Holding ::
  "string \<Rightarrow> string \<Rightarrow> real \<Rightarrow> real \<Rightarrow> real \<Rightarrow> string \<Rightarrow> nat option \<Rightarrow> string \<Rightarrow> holding" where
  "Holding symb nm qty cost price created i now =
     \<lparr>h_symbol = symb, name = nm, total_qty = qty, avg_cost = cost, current_price = price,
      created_at = (if created = [] then now else created), h_id = i\<rparr>"

definition Transaction ::
  "string \<Rightarrow> string \<Rightarrow> real \<Rightarrow> real \<Rightarrow> py_float \<Rightarrow> string \<Rightarrow> string \<Rightarrow> nat option
     \<Rightarrow> string \<Rightarrow> transaction" where
  "Transaction symb ty qty price fee exch date i now =
     \<lparr>t_symbol = symb, tx_type = ty, quantity = qty, t_price_usd = price, fee_usd = fee,
      exchange = exch, tx_date = (if date = [] then now else date), t_id = i\<rparr>"

definition PriceRecord ::
  "string \<Rightarrow> real \<Rightarrow> string \<Rightarrow> string \<Rightarrow> nat option \<Rightarrow> string \<Rightarrow> price_record" where
  "PriceRecord symb price src recorded i now =
     \<lparr>p_symbol = symb, p_price_usd = price, source = src,
      recorded_at = (if recorded = [] then now else recorded), p_id = i\<rparr>"

text \<open>
  The database. \<open>holdings_seq\<close> is the \<^verbatim>\<open>sqlite_sequence\<close> entry of \<^verbatim>\<open>holdings\<close>: an
  \<^verbatim>\<open>INSERT OR IGNORE\<close> that is ignored has already drawn its rowid, so the counter
  advances although no row is written. The other two tables are only ever appended
  to, and their next rowid is the number of rows plus one.
\<close>

record store =
  holdings :: "holding list"
  holdings_seq :: nat
  transactions :: "transaction list"
  prices :: "price_record list"

definition init_db :: store where
  "init_db = \<lparr>holdings = [], holdings_seq = 0, transactions = [], prices = []\<rparr>"

subsection \<open>add\_holding\<close>

definition insert_or_ignore_holding :: "store \<Rightarrow> holding \<Rightarrow> store" where
  "insert_or_ignore_holding st h =
     (let i = Suc (holdings_seq st)
      in if h_symbol h \<in> set (map h_symbol (holdings st)) then st\<lparr>holdings_seq := i\<rparr>
         else st\<lparr>holdings := holdings st @ [h\<lparr>h_id := Some i\<rparr>], holdings_seq := i\<rparr>)"

definition add_holding :: "store \<Rightarrow> string \<Rightarrow> string \<Rightarrow> string \<Rightarrow> holding \<times> store" where
  "add_holding st symbol nm now =
     (let h = Holding (upper symbol) nm 0 0 0 [] None now
      in (h, insert_or_ignore_holding st h))"

subsection \<open>record\_transaction\<close>

definition insert_transaction :: "store \<Rightarrow> transaction \<Rightarrow> store" where
  "insert_transaction st tx =
     st\<lparr>transactions := transactions st @ [tx\<lparr>t_id := Some (Suc (length (transactions st)))\<rparr>]\<rparr>"

text \<open>The body of the loop over the symbol's rows, on the pair of \<^verbatim>\<open>total_qty\<close> and \<^verbatim>\<open>total_cost\<close>.\<close>

fun accumulate :: "real \<times> real \<Rightarrow> transaction \<Rightarrow> real \<times> real" where
  "accumulate (qty_total, cost_total) r =
     (if tx_type r = ''buy''
      then (qty_total + quantity r, cost_total + quantity r * t_price_usd r)
      else (qty_total - quantity r, cost_total))"

definition select_transactions :: "store \<Rightarrow> string \<Rightarrow> transaction list" where
  "select_transactions st symbol = filter (\<lambda>r. t_symbol r = symbol) (transactions st)"

definition update_holding_aggregate :: "store \<Rightarrow> string \<Rightarrow> real \<Rightarrow> real \<Rightarrow> store" where
  "update_holding_aggregate st symbol qty cost =
     st\<lparr>holdings :=
          map (\<lambda>h. if h_symbol h = symbol then h\<lparr>total_qty := qty, avg_cost := cost\<rparr> else h)
            (holdings st)\<rparr>"

text \<open>
  The \<^verbatim>\<open>INSERT\<close> binds a NaN quantity or price as NULL and fails on the \<^verbatim>\<open>NOT NULL\<close>
  constraint before anything is written; the transaction object of such a call is
  never returned.
\<close>

definition record_transaction ::
  "store \<Rightarrow> string \<Rightarrow> string \<Rightarrow> py_float \<Rightarrow> py_float \<Rightarrow> py_float \<Rightarrow> string \<Rightarrow> string
     \<Rightarrow> py_error + transaction \<times> store" where
  "record_transaction st symbol0 ty qty price fee exch now =
     (let symbol = upper symbol0
      in case qty of
           NaN \<Rightarrow> Inl IntegrityError
         | Num q \<Rightarrow>
             (case price of
                NaN \<Rightarrow> Inl IntegrityError
              | Num p \<Rightarrow>
                  (let tx = Transaction symbol ty q p fee exch [] None now;
                       st1 = insert_transaction st tx;
                       rows = select_transactions st1 symbol;
                       (qty_total, cost_total) = foldl accumulate (0, 0) rows
                   in case (if qty_total > 0 then py_div cost_total qty_total else Inr 0) of
                        Inl e \<Rightarrow> Inl e
                      | Inr avg \<Rightarrow>
                          Inr (tx, update_holding_aggregate st1 symbol (max 0 qty_total)
                                     (py_round avg 8)))))"

subsection \<open>update\_price\<close>

definition insert_price :: "store \<Rightarrow> price_record \<Rightarrow> store" where
  "insert_price st rec =
     st\<lparr>prices := prices st @ [rec\<lparr>p_id := Some (Suc (length (prices st)))\<rparr>]\<rparr>"

definition update_holding_price :: "store \<Rightarrow> string \<Rightarrow> real \<Rightarrow> store" where
  "update_holding_price st symbol price =
     st\<lparr>holdings :=
          map (\<lambda>h. if h_symbol h = symbol then h\<lparr>current_price := price\<rparr> else h) (holdings st)\<rparr>"

definition update_price ::
  "store \<Rightarrow> string \<Rightarrow> real \<Rightarrow> string \<Rightarrow> string \<Rightarrow> price_record \<times> store" where
  "update_price st symbol0 price src now =
     (let symbol = upper symbol0;
          rec = PriceRecord symbol price src [] None now
      in (rec, update_holding_price (insert_price st rec) symbol price))"

subsection \<open>get\_portfolio\<close>

text \<open>A row of the result: the columns of the holding and the four keys added to it.\<close>

record portfolio_entry = holding +
  market_value :: real
  cost_basis :: real
  unrealized_pnl :: real
  pnl_pct :: real

definition annotate :: "holding \<Rightarrow> py_error + portfolio_entry" where
  "annotate h =
     (let market_val = total_qty h * current_price h;
          cost = total_qty h * avg_cost h;
          pnl = market_val - cost
      in case (if cost > 0
               then (case py_div pnl cost of Inl e \<Rightarrow> Inl e | Inr d \<Rightarrow> Inr (d * 100))
               else Inr 0) of
           Inl e \<Rightarrow> Inl e
         | Inr pct \<Rightarrow>
             Inr (holding.extend h
                    (portfolio_entry.fields (py_round market_val 2) (py_round cost 2)
                       (py_round pnl 2) (py_round pct 2))))"

fun annotate_rows :: "holding list \<Rightarrow> py_error + portfolio_entry list" where
  "annotate_rows [] = Inr []"
| "annotate_rows (r # rows) =
     (case annotate r of
        Inl e \<Rightarrow> Inl e
      | Inr h \<Rightarrow> (case annotate_rows rows of Inl e \<Rightarrow> Inl e | Inr hs \<Rightarrow> Inr (h # hs)))"

definition select_positions :: "store \<Rightarrow> holding list" where
  "select_positions st =
     order_by_desc (\<lambda>h. total_qty h * current_price h)
       (filter (\<lambda>h. total_qty h > 0) (holdings st))"

definition get_portfolio :: "store \<Rightarrow> py_error + portfolio_entry list" where
  "get_portfolio st = annotate_rows (select_positions st)"

subsection \<open>calculate\_pnl\<close>

record pnl_summary =
  total_market_value :: string
  total_cost_basis :: string
  s_unrealized_pnl :: string
  pnl_percentage :: string
  winning_positions :: nat
  losing_positions :: nat
  total_positions :: nat

definition summarise :: "portfolio_entry list \<Rightarrow> py_error + pnl_summary" where
  "summarise portfolio =
     (let total_val = sum_list (map market_value portfolio);
          total_cost = sum_list (map cost_basis portfolio);
          total_pnl = total_val - total_cost;
          winners = filter (\<lambda>h. unrealized_pnl h > 0) portfolio;
          losers = filter (\<lambda>h. unrealized_pnl h < 0) portfolio
      in case (if total_cost \<noteq> 0
               then (case py_div total_pnl total_cost of Inl e \<Rightarrow> Inl e | Inr d \<Rightarrow> Inr (d * 100))
               else Inr 0) of
           Inl e \<Rightarrow> Inl e
         | Inr pct \<Rightarrow>
             Inr \<lparr>total_market_value = ''$'' @ format_2f False True total_val,
                  total_cost_basis = ''$'' @ format_2f False True total_cost,
                  s_unrealized_pnl = ''$'' @ format_2f True True total_pnl,
                  pnl_percentage = format_2f True False pct @ ''%'',
                  winning_positions = length winners,
                  losing_positions = length losers,
                  total_positions = length portfolio\<rparr>)"

definition calculate_pnl :: "store \<Rightarrow> py_error + pnl_summary" where
  "calculate_pnl st =
     (case get_portfolio st of Inl e \<Rightarrow> Inl e | Inr portfolio \<Rightarrow> summarise portfolio)"

subsection \<open>export\_report\<close>

record report =
  exported_at :: string
  generator :: string
  r_pnl_summary :: pnl_summary
  portfolio :: "portfolio_entry list"
  recent_transactions :: "transaction list"

definition select_recent_transactions :: "store \<Rightarrow> transaction list" where
  "select_recent_transactions st = take 200 (order_by_desc tx_date (transactions st))"

text \<open>
  \<^verbatim>\<open>json.dumps(data, indent=2)\<close> belongs to Python's library, not to this program: it is
  the parameter \<open>dumps\<close>, into any type of texts. The file system maps a path to the
  text written there.
\<close>

definition export_report ::
  "(report \<Rightarrow> 'text) \<Rightarrow> store \<Rightarrow> (string \<rightharpoonup> 'text) \<Rightarrow> string \<Rightarrow> string
     \<Rightarrow> py_error + string \<times> (string \<rightharpoonup> 'text)" where
  "export_report dumps st files output_path now =
     (let txs = select_recent_transactions st
      in case calculate_pnl st of
           Inl e \<Rightarrow> Inl e
         | Inr summary \<Rightarrow>
             (case get_portfolio st of
                Inl e \<Rightarrow> Inl e
              | Inr pf \<Rightarrow>
                  (let data = \<lparr>exported_at = now,
                                generator = ''BlackRoad Crypto Tracker v1.0'',
                                r_pnl_summary = summary,
                                portfolio = pf,
                                recent_transactions = txs\<rparr>
                   in Inr (output_path, files(output_path \<mapsto> dumps data)))))"

subsection \<open>Sequences of calls\<close>

text \<open>
  The mutating methods as commands, run from the freshly initialised database. A call
  that raises leaves the store as it was.
\<close>

datatype command =
  AddHolding string string string
| RecordTransaction string string py_float py_float py_float string string
| UpdatePrice string real string string

fun execute :: "store \<Rightarrow> command \<Rightarrow> store" where
  "execute st (AddHolding symbol nm now) = snd (add_holding st symbol nm now)"
| "execute st (RecordTransaction symbol ty qty price fee exch now) =
     (case record_transaction st symbol ty qty price fee exch now of
        Inl e \<Rightarrow> st
      | Inr (tx, st') \<Rightarrow> st')"
| "execute st (UpdatePrice symbol price src now) = snd (update_price st symbol price src now)"

definition run :: "command list \<Rightarrow> store" where
  "run cmds = foldl execute init_db cmds"

subsection \<open>The aggregate as the specification words it\<close>

text \<open>
  The fold of the specification over a symbol's history: a buy adds its quantity to the
  quantity and quantity times price to the cost, a sell takes its quantity off the
  quantity and leaves the cost. The specification knows no other transaction type; a row
  of another type contributes nothing here.
\<close>

fun spec_aggregate :: "transaction list \<Rightarrow> real \<times> real" where
  "spec_aggregate [] = (0, 0)"
| "spec_aggregate (r # rows) =
     (let (q, c) = spec_aggregate rows
      in if tx_type r = ''buy'' then (q + quantity r, c + quantity r * t_price_usd r)
         else if tx_type r = ''sell'' then (q - quantity r, c)
         else (q, c))"

text \<open>What the loop of \<^verbatim>\<open>record_transaction\<close> computes, in closed form.\<close>

definition net_qty :: "transaction list \<Rightarrow> real" where
  "net_qty rows = (\<Sum>r\<leftarrow>rows. if tx_type r = ''buy'' then quantity r else - quantity r)"

definition buy_cost :: "transaction list \<Rightarrow> real" where
  "buy_cost rows = (\<Sum>r\<leftarrow>rows. if tx_type r = ''buy'' then quantity r * t_price_usd r else 0)"

subsection \<open>The valuation in closed form\<close>

text \<open>
  What \<^verbatim>\<open>get_portfolio\<close> adds to a row and what \<^verbatim>\<open>calculate_pnl\<close> builds from the
  portfolio, once the guarded divisions are known to succeed.
\<close>

definition entry_of :: "holding \<Rightarrow> portfolio_entry" where
  "entry_of h =
     holding.extend h
       (portfolio_entry.fields
          (py_round (total_qty h * current_price h) 2)
          (py_round (total_qty h * avg_cost h) 2)
          (py_round (total_qty h * current_price h - total_qty h * avg_cost h) 2)
          (py_round (if total_qty h * avg_cost h > 0
                     then (total_qty h * current_price h - total_qty h * avg_cost h)
                          / (total_qty h * avg_cost h) * 100
                     else 0) 2))"

definition summary_of :: "portfolio_entry list \<Rightarrow> pnl_summary" where
  "summary_of pf =
     (let total_val = sum_list (map market_value pf);
          total_cost = sum_list (map cost_basis pf);
          total_pnl = total_val - total_cost
      in \<lparr>total_market_value = ''$'' @ format_2f False True total_val,
          total_cost_basis = ''$'' @ format_2f False True total_cost,
          s_unrealized_pnl = ''$'' @ format_2f True True total_pnl,
          pnl_percentage =
            format_2f True False (if total_cost \<noteq> 0 then total_pnl / total_cost * 100 else 0)
            @ ''%'',
          winning_positions = length (filter (\<lambda>h. unrealized_pnl h > 0) pf),
          losing_positions = length (filter (\<lambda>h. unrealized_pnl h < 0) pf),
          total_positions = length pf\<rparr>)"

definition zero_summary :: pnl_summary where
  "zero_summary =
     \<lparr>total_market_value = ''$0.00'', total_cost_basis = ''$0.00'', s_unrealized_pnl = ''$+0.00'',
      pnl_percentage = ''+0.00%'', winning_positions = 0, losing_positions = 0,
      total_positions = 0\<rparr>"

subsection \<open>A worked ledger\<close>

text \<open>
  Bitcoin is registered at \<open>t0\<close>; one coin is bought at 50000, one at 70000, half a coin
  is sold at 80000.
\<close>

definition btc_row :: "real \<Rightarrow> real \<Rightarrow> real \<Rightarrow> holding" where
  "btc_row qty cost price =
     \<lparr>h_symbol = ''BTC'', name = ''Bitcoin'', total_qty = qty, avg_cost = cost,
      current_price = price, created_at = ''t0'', h_id = Some 1\<rparr>"

definition btc_tx :: "nat \<Rightarrow> string \<Rightarrow> real \<Rightarrow> real \<Rightarrow> string \<Rightarrow> transaction" where
  "btc_tx i ty qty price date =
     \<lparr>t_symbol = ''BTC'', tx_type = ty, quantity = qty, t_price_usd = price, fee_usd = Num 0,
      exchange = ''manual'', tx_date = date, t_id = Some i\<rparr>"

definition btc_two_buys :: store where
  "btc_two_buys =
     \<lparr>holdings = [btc_row 2 60000 0], holdings_seq = 1,
      transactions = [btc_tx 1 ''buy'' 1 50000 ''t1'', btc_tx 2 ''buy'' 1 70000 ''t2''],
      prices = []\<rparr>"

definition btc_after_sell :: store where
  "btc_after_sell =
     \<lparr>holdings = [btc_row (3/2) 80000 0], holdings_seq = 1,
      transactions = [btc_tx 1 ''buy'' 1 50000 ''t1'', btc_tx 2 ''buy'' 1 70000 ''t2'',
                      btc_tx 3 ''sell'' (1/2) 80000 ''t3''],
      prices = []\<rparr>"

definition btc_ledger :: "command list" where
  "btc_ledger =
     [AddHolding ''btc'' ''Bitcoin'' ''t0'',
      RecordTransaction ''btc'' ''buy'' (Num 1) (Num 50000) (Num 0) ''manual'' ''t1'',
      RecordTransaction ''btc'' ''buy'' (Num 1) (Num 70000) (Num 0) ''manual'' ''t2'',
      RecordTransaction ''btc'' ''sell'' (Num (1/2)) (Num 80000) (Num 0) ''manual'' ''t3'']"

text \<open>
  Two more assets: Ether, bought and sold in full, and Solana. The ledger as a list of
  calls and as the database it leaves behind.
\<close>

definition eth_row :: "real \<Rightarrow> real \<Rightarrow> real \<Rightarrow> holding" where
  "eth_row qty cost price =
     \<lparr>h_symbol = ''ETH'', name = ''Ether'', total_qty = qty, avg_cost = cost,
      current_price = price, created_at = ''t5'', h_id = Some 2\<rparr>"

definition sol_row :: "real \<Rightarrow> real \<Rightarrow> real \<Rightarrow> holding" where
  "sol_row qty cost price =
     \<lparr>h_symbol = ''SOL'', name = ''Solana'', total_qty = qty, avg_cost = cost,
      current_price = price, created_at = ''t7'', h_id = Some 3\<rparr>"

definition ledger_tx :: "nat \<Rightarrow> string \<Rightarrow> string \<Rightarrow> real \<Rightarrow> real \<Rightarrow> string \<Rightarrow> transaction" where
  "ledger_tx i symb ty qty price date =
     \<lparr>t_symbol = symb, tx_type = ty, quantity = qty, t_price_usd = price, fee_usd = Num 0,
      exchange = ''manual'', tx_date = date, t_id = Some i\<rparr>"

definition ledger_price :: "nat \<Rightarrow> string \<Rightarrow> real \<Rightarrow> string \<Rightarrow> price_record" where
  "ledger_price i symb price date =
     \<lparr>p_symbol = symb, p_price_usd = price, source = ''manual'', recorded_at = date,
      p_id = Some i\<rparr>"

definition three_assets_ledger :: "command list" where
  "three_assets_ledger =
     btc_ledger @
     [UpdatePrice ''btc'' 65000 ''manual'' ''t4'',
      AddHolding ''eth'' ''Ether'' ''t5'',
      RecordTransaction ''eth'' ''buy'' (Num 2) (Num 2000) (Num 0) ''manual'' ''t5'',
      RecordTransaction ''eth'' ''sell'' (Num 2) (Num 3000) (Num 0) ''manual'' ''t6'',
      UpdatePrice ''eth'' 3000 ''manual'' ''t6'',
      AddHolding ''sol'' ''Solana'' ''t7'',
      RecordTransaction ''sol'' ''buy'' (Num 1000) (Num 100) (Num 0) ''manual'' ''t7'',
      UpdatePrice ''sol'' (150123/1000) ''manual'' ''t8'']"

definition three_assets :: store where
  "three_assets =
     \<lparr>holdings = [btc_row (3/2) 80000 65000, eth_row 0 0 3000, sol_row 1000 100 (150123/1000)],
      holdings_seq = 3,
      transactions =
        [btc_tx 1 ''buy'' 1 50000 ''t1'', btc_tx 2 ''buy'' 1 70000 ''t2'',
         btc_tx 3 ''sell'' (1/2) 80000 ''t3'',
         ledger_tx 4 ''ETH'' ''buy'' 2 2000 ''t5'', ledger_tx 5 ''ETH'' ''sell'' 2 3000 ''t6'',
         ledger_tx 6 ''SOL'' ''buy'' 1000 100 ''t7''],
      prices = [ledger_price 1 ''BTC'' 65000 ''t4'', ledger_price 2 ''ETH'' 3000 ''t6'',
                ledger_price 3 ''SOL'' (150123/1000) ''t8'']\<rparr>"

text \<open>A coin received for free: one Bitcoin at cost 0, priced at 65000.\<close>

definition gifted_coin :: store where
  "gifted_coin =
     \<lparr>holdings = [btc_row 1 0 65000], holdings_seq = 1,
      transactions = [btc_tx 1 ''buy'' 1 0 ''t1''],
      prices = [ledger_price 1 ''BTC'' 65000 ''t2'']\<rparr>"

text \<open>The report of the three-asset ledger exported at \<open>t9\<close>.\<close>

definition sample_report :: report where
  "sample_report =
     \<lparr>exported_at = ''t9'', generator = ''BlackRoad Crypto Tracker v1.0'',
      r_pnl_summary =
        \<lparr>total_market_value = ''$247,623.00'', total_cost_basis = ''$220,000.00'',
         s_unrealized_pnl = ''$+27,623.00'', pnl_percentage = ''+12.56%'',
         winning_positions = 1, losing_positions = 1, total_positions = 2\<rparr>,
      portfolio = [entry_of (sol_row 1000 100 (150123/1000)), entry_of (btc_row (3/2) 80000 65000)],
      recent_transactions =
        [ledger_tx 6 ''SOL'' ''buy'' 1000 100 ''t7'', ledger_tx 5 ''ETH'' ''sell'' 2 3000 ''t6'',
         ledger_tx 4 ''ETH'' ''buy'' 2 2000 ''t5'', btc_tx 3 ''sell'' (1/2) 80000 ''t3'',
         btc_tx 2 ''buy'' 1 70000 ''t2'', btc_tx 1 ''buy'' 1 50000 ''t1'']\<rparr>"

section \<open>Properties\<close>

subsection \<open>Primitives\<close>

lemma py_round_zero: "py_round 0 n = 0"
  by (simp add: py_round_def round_half_even_def)

lemma upper_btc: "upper ''btc'' = ''BTC''"
  by code_simp

subsection \<open>record\_transaction in closed form\<close>

lemma foldl_accumulate:
  "foldl accumulate (a, c) rows =
     (a + (\<Sum>r\<leftarrow>rows. if tx_type r = ''buy'' then quantity r else - quantity r),
      c + (\<Sum>r\<leftarrow>rows. if tx_type r = ''buy'' then quantity r * t_price_usd r else 0))"
  by (induction rows arbitrary: a c) auto

text \<open>
  The division is guarded, so a call with a number for the quantity and for the price
  always returns; a call with NaN for either raises \<^verbatim>\<open>IntegrityError\<close>.
\<close>

lemma record_transaction_eq:
  "record_transaction st symbol0 ty (Num qty) (Num price) fee exch now =
     (let tx = Transaction (upper symbol0) ty qty price fee exch [] None now;
          st1 = insert_transaction st tx;
          rows = select_transactions st1 (upper symbol0)
      in Inr (tx, update_holding_aggregate st1 (upper symbol0) (max 0 (net_qty rows))
                    (py_round (if net_qty rows > 0 then buy_cost rows / net_qty rows else 0) 8)))"
  by (simp add: record_transaction_def Let_def foldl_accumulate py_div_def net_qty_def buy_cost_def)

lemma record_transaction_nan:
  "qty = NaN \<or> price = NaN \<Longrightarrow>
     record_transaction st symbol ty qty price fee exch now = Inl IntegrityError"
  by (auto simp: record_transaction_def Let_def split: py_float.splits)

lemma record_transaction_numeric:
  assumes "record_transaction st symbol ty qty price fee exch now = Inr (tx, st')"
  obtains q p where "qty = Num q" and "price = Num p"
proof (cases qty)
  case NaN
  with assms show ?thesis by (simp add: record_transaction_nan)
next
  case q: (Num q)
  show ?thesis
  proof (cases price)
    case NaN
    with assms show ?thesis by (simp add: record_transaction_nan)
  next
    case (Num p)
    with q that show ?thesis by blast
  qed
qed

lemma record_transaction_returns:
  "\<exists>tx st'. record_transaction st symbol ty (Num qty) (Num price) fee exch now = Inr (tx, st')"
  unfolding record_transaction_eq Let_def by blast

lemma record_transaction_result:
  assumes "record_transaction st symbol ty (Num qty) (Num price) fee exch now = Inr (tx, st')"
  shows "tx = Transaction (upper symbol) ty qty price fee exch [] None now"
    and "st' = update_holding_aggregate (insert_transaction st tx) (upper symbol)
                 (max 0 (net_qty (select_transactions (insert_transaction st tx) (upper symbol))))
                 (py_round
                    (if net_qty (select_transactions (insert_transaction st tx) (upper symbol)) > 0
                     then buy_cost (select_transactions (insert_transaction st tx) (upper symbol))
                          / net_qty (select_transactions (insert_transaction st tx) (upper symbol))
                     else 0) 8)"
proof -
  let ?tx = "Transaction (upper symbol) ty qty price fee exch [] None now"
  let ?rows = "select_transactions (insert_transaction st ?tx) (upper symbol)"
  let ?st = "update_holding_aggregate (insert_transaction st ?tx) (upper symbol)
               (max 0 (net_qty ?rows))
               (py_round (if net_qty ?rows > 0 then buy_cost ?rows / net_qty ?rows else 0) 8)"
  from assms have both: "?tx = tx \<and> ?st = st'"
    unfolding record_transaction_eq Let_def sum.inject prod.inject .
  from both have a: "?tx = tx" by (rule conjunct1)
  from both have b: "?st = st'" by (rule conjunct2)
  show "tx = ?tx" using a by (rule sym)
  show "st' = update_holding_aggregate (insert_transaction st tx) (upper symbol)
                 (max 0 (net_qty (select_transactions (insert_transaction st tx) (upper symbol))))
                 (py_round
                    (if net_qty (select_transactions (insert_transaction st tx) (upper symbol)) > 0
                     then buy_cost (select_transactions (insert_transaction st tx) (upper symbol))
                          / net_qty (select_transactions (insert_transaction st tx) (upper symbol))
                     else 0) 8)"
    unfolding a [symmetric] using b by (rule sym)
qed

lemma update_holding_aggregate_frame [simp]:
  "transactions (update_holding_aggregate st s q c) = transactions st"
  "prices (update_holding_aggregate st s q c) = prices st"
  "holdings_seq (update_holding_aggregate st s q c) = holdings_seq st"
  by (simp_all add: update_holding_aggregate_def)

lemma select_transactions_update_holding_aggregate [simp]:
  "select_transactions (update_holding_aggregate st s q c) s' = select_transactions st s'"
  by (simp add: select_transactions_def)

lemma holdings_update_holding_aggregate:
  "h \<in> set (holdings (update_holding_aggregate st s q c)) \<Longrightarrow> h_symbol h = s \<Longrightarrow>
     total_qty h = q \<and> avg_cost h = c"
proof -
  assume mem: "h \<in> set (holdings (update_holding_aggregate st s q c))" and sym: "h_symbol h = s"
  from mem obtain x where x: "x \<in> set (holdings st)"
    and h: "h = (if h_symbol x = s then x\<lparr>total_qty := q, avg_cost := c\<rparr> else x)"
    unfolding update_holding_aggregate_def by auto
  show ?thesis
  proof (cases "h_symbol x = s")
    case True
    with h show ?thesis by simp
  next
    case False
    with h sym show ?thesis by simp
  qed
qed

lemma select_transactions_filter:
  "select_transactions st s = filter (\<lambda>r. t_symbol r = s) (transactions st)"
  by (simp add: select_transactions_def)

lemma spec_aggregate_eq:
  "\<forall>r\<in>set rows. tx_type r = ''buy'' \<or> tx_type r = ''sell'' \<Longrightarrow>
     spec_aggregate rows = (net_qty rows, buy_cost rows)"
  by (induction rows) (auto simp: net_qty_def buy_cost_def)

lemma record_transaction_persisted:
  assumes res: "record_transaction st symbol ty (Num qty) (Num price) fee exch now = Inr (tx, st')"
    and mem: "h \<in> set (holdings st')" and sym: "h_symbol h = upper symbol"
  shows "total_qty h = max 0 (net_qty (select_transactions st' (upper symbol)))
       \<and> avg_cost h =
           py_round (if net_qty (select_transactions st' (upper symbol)) > 0
                     then buy_cost (select_transactions st' (upper symbol))
                          / net_qty (select_transactions st' (upper symbol))
                     else 0) 8"
proof -
  define rows where "rows = select_transactions (insert_transaction st tx) (upper symbol)"
  define q where "q = max 0 (net_qty rows)"
  define c where "c = py_round (if net_qty rows > 0 then buy_cost rows / net_qty rows else 0) 8"
  have st': "st' = update_holding_aggregate (insert_transaction st tx) (upper symbol) q c"
    unfolding q_def c_def rows_def by (rule record_transaction_result(2) [OF res])
  have sel: "select_transactions st' (upper symbol) = rows"
    unfolding st' rows_def by simp
  from mem sym have "total_qty h = q \<and> avg_cost h = c"
    unfolding st' by (rule holdings_update_holding_aggregate)
  then show ?thesis
    unfolding sel q_def c_def .
qed

lemma transactions_record_transaction:
  assumes "record_transaction st symbol ty (Num qty) (Num price) fee exch now = Inr (tx, st')"
  shows "transactions st' = transactions st @ [tx\<lparr>t_id := Some (Suc (length (transactions st)))\<rparr>]"
  unfolding record_transaction_result(2) [OF assms] by (simp add: insert_transaction_def)

lemma select_transactions_insert:
  "select_transactions (insert_transaction st tx) (t_symbol tx)
     = select_transactions st (t_symbol tx) @ [tx\<lparr>t_id := Some (Suc (length (transactions st)))\<rparr>]"
  by (simp add: select_transactions_def insert_transaction_def)

lemma net_qty_snoc:
  "net_qty (rows @ [r]) = net_qty rows + (if tx_type r = ''buy'' then quantity r else - quantity r)"
  by (simp add: net_qty_def)

lemma sum_list_split_buy:
  "(\<Sum>r\<leftarrow>rows. if tx_type r = ''buy'' then quantity r else - quantity r)
     = sum_list (map quantity (filter (\<lambda>r. tx_type r = ''buy'') rows))
       - sum_list (map quantity (filter (\<lambda>r. tx_type r \<noteq> ''buy'') rows))"
  by (induction rows) auto

lemma sum_list_buy_cost:
  "(\<Sum>r\<leftarrow>rows. if tx_type r = ''buy'' then quantity r * t_price_usd r else 0)
     = sum_list (map (\<lambda>r. quantity r * t_price_usd r) (filter (\<lambda>r. tx_type r = ''buy'') rows))"
  by (induction rows) auto

subsection \<open>add\_holding and update\_price in closed form\<close>

lemma insert_or_ignore_existing:
  "h_symbol h \<in> set (map h_symbol (holdings st)) \<Longrightarrow>
     insert_or_ignore_holding st h = st\<lparr>holdings_seq := Suc (holdings_seq st)\<rparr>"
  by (simp add: insert_or_ignore_holding_def Let_def)

lemma add_holding_returns:
  "fst (add_holding st symbol nm now) =
     \<lparr>h_symbol = upper symbol, name = nm, total_qty = 0, avg_cost = 0, current_price = 0,
      created_at = now, h_id = None\<rparr>"
  by (simp add: add_holding_def Let_def Holding_def)

lemma add_holding_existing:
  "upper symbol \<in> set (map h_symbol (holdings st)) \<Longrightarrow>
     snd (add_holding st symbol nm now) = st\<lparr>holdings_seq := Suc (holdings_seq st)\<rparr>"
  by (simp add: add_holding_def Let_def insert_or_ignore_existing Holding_def)

lemma holdings_add_holding:
  "holdings (snd (add_holding st symbol nm now)) = holdings st
   \<or> (\<exists>i. holdings (snd (add_holding st symbol nm now))
            = holdings st @ [\<lparr>h_symbol = upper symbol, name = nm, total_qty = 0, avg_cost = 0,
                               current_price = 0, created_at = now, h_id = Some i\<rparr>])"
  by (simp add: add_holding_def insert_or_ignore_holding_def Let_def Holding_def)

lemma update_price_eq:
  "update_price st symbol price src now =
     (\<lparr>p_symbol = upper symbol, p_price_usd = price, source = src, recorded_at = now, p_id = None\<rparr>,
      \<lparr>holdings = map (\<lambda>h. if h_symbol h = upper symbol then h\<lparr>current_price := price\<rparr> else h)
                    (holdings st),
       holdings_seq = holdings_seq st,
       transactions = transactions st,
       prices = prices st @ [\<lparr>p_symbol = upper symbol, p_price_usd = price, source = src,
                               recorded_at = now, p_id = Some (Suc (length (prices st)))\<rparr>]\<rparr>)"
  by (simp add: update_price_def Let_def PriceRecord_def insert_price_def update_holding_price_def)

subsection \<open>Sequences of calls keep quantities non-negative\<close>

lemma run_snoc: "run (cmds @ [c]) = execute (run cmds) c"
  by (simp add: run_def)

lemma total_qty_update_holding_aggregate:
  assumes "\<forall>h\<in>set (holdings st). 0 \<le> total_qty h" and "0 \<le> q"
  shows "\<forall>h\<in>set (holdings (update_holding_aggregate st s q c)). 0 \<le> total_qty h"
proof
  fix h assume "h \<in> set (holdings (update_holding_aggregate st s q c))"
  then obtain x where x: "x \<in> set (holdings st)"
    and h: "h = (if h_symbol x = s then x\<lparr>total_qty := q, avg_cost := c\<rparr> else x)"
    unfolding update_holding_aggregate_def by auto
  show "0 \<le> total_qty h"
  proof (cases "h_symbol x = s")
    case True
    with h assms(2) show ?thesis by simp
  next
    case False
    with h x assms(1) show ?thesis by simp
  qed
qed

lemma record_transaction_nonneg:
  assumes res: "record_transaction st symbol ty (Num qty) (Num price) fee exch now = Inr (tx, st')"
    and inv: "\<forall>h\<in>set (holdings st). 0 \<le> total_qty h"
  shows "\<forall>h\<in>set (holdings st'). 0 \<le> total_qty h"
proof -
  have "\<forall>h\<in>set (holdings (insert_transaction st tx)). 0 \<le> total_qty h"
    using inv by (simp add: insert_transaction_def)
  then show ?thesis
    unfolding record_transaction_result(2) [OF res]
    by (rule total_qty_update_holding_aggregate) simp
qed

lemma update_price_nonneg:
  assumes inv: "\<forall>h\<in>set (holdings st). 0 \<le> total_qty h"
  shows "\<forall>h\<in>set (holdings (snd (update_price st symbol price src now))). 0 \<le> total_qty h"
proof
  fix h assume "h \<in> set (holdings (snd (update_price st symbol price src now)))"
  then obtain x where x: "x \<in> set (holdings st)"
    and h: "h = (if h_symbol x = upper symbol then x\<lparr>current_price := price\<rparr> else x)"
    unfolding update_price_eq by auto
  from x inv have "0 \<le> total_qty x" by blast
  then show "0 \<le> total_qty h"
    unfolding h by (cases "h_symbol x = upper symbol") simp_all
qed

lemma execute_nonneg:
  assumes inv: "\<forall>h\<in>set (holdings st). 0 \<le> total_qty h"
  shows "\<forall>h\<in>set (holdings (execute st c)). 0 \<le> total_qty h"
proof (cases c)
  case (AddHolding symbol nm now)
  from holdings_add_holding [of st symbol nm now] inv show ?thesis
    unfolding AddHolding execute.simps by (elim disjE exE) simp_all
next
  case (RecordTransaction symbol ty qty price fee exch now)
  show ?thesis
  proof (cases "record_transaction st symbol ty qty price fee exch now")
    case (Inl e)
    with inv show ?thesis
      unfolding RecordTransaction execute.simps by simp
  next
    case (Inr res)
    obtain tx st' where res: "res = (tx, st')" by (cases res)
    from Inr res obtain q p where num: "qty = Num q" "price = Num p"
      by (auto elim: record_transaction_numeric)
    from Inr res have "record_transaction st symbol ty (Num q) (Num p) fee exch now = Inr (tx, st')"
      unfolding num by simp
    from record_transaction_nonneg [OF this inv] show ?thesis
      unfolding RecordTransaction execute.simps Inr res by simp
  qed
next
  case (UpdatePrice symbol price src now)
  from update_price_nonneg [OF inv] show ?thesis
    unfolding UpdatePrice execute.simps .
qed

lemma run_nonneg: "\<forall>h\<in>set (holdings (run cmds)). 0 \<le> total_qty h"
proof (induction cmds rule: rev_induct)
  case Nil
  show ?case by (simp add: run_def init_db_def)
next
  case (snoc c cmds)
  then show ?case unfolding run_snoc by (rule execute_nonneg)
qed

lemma oversell_clamped:
  assumes res: "record_transaction st symbol ''sell'' (Num qty) (Num price) fee exch now = Inr (tx, st')"
    and over: "max 0 (net_qty (select_transactions st (upper symbol))) < qty"
    and mem: "h \<in> set (holdings st')" and sym: "h_symbol h = upper symbol"
  shows "total_qty h = 0"
proof -
  have tx: "tx = Transaction (upper symbol) ''sell'' qty price fee exch [] None now"
    by (rule record_transaction_result(1) [OF res])
  have tsym: "t_symbol tx = upper symbol" and tty: "tx_type tx = ''sell''" and tq: "quantity tx = qty"
    unfolding tx by (simp_all add: Transaction_def)
  have "select_transactions st' (upper symbol)
          = select_transactions (insert_transaction st tx) (upper symbol)"
    by (subst record_transaction_result(2) [OF res]) simp
  also have "\<dots> = select_transactions st (upper symbol)
                    @ [tx\<lparr>t_id := Some (Suc (length (transactions st)))\<rparr>]"
    using select_transactions_insert [of st tx] by (simp add: tsym)
  finally have "net_qty (select_transactions st' (upper symbol))
               = net_qty (select_transactions st (upper symbol)) - qty"
    by (simp add: net_qty_snoc tty tq)
  with over have "net_qty (select_transactions st' (upper symbol)) < 0" by simp
  with record_transaction_persisted [OF res mem sym] show ?thesis by simp
qed

subsection \<open>Evaluating the worked ledger\<close>

lemmas eval_defs = run_def init_db_def add_holding_def Holding_def insert_or_ignore_holding_def
  record_transaction_eq insert_transaction_def select_transactions_def update_holding_aggregate_def
  net_qty_def buy_cost_def Transaction_def update_price_def PriceRecord_def insert_price_def
  update_holding_price_def py_round_def round_half_even_def Let_def upper_btc btc_row_def btc_tx_def

lemma sell_after_two_buys:
  "record_transaction btc_two_buys ''btc'' ''sell'' (Num (1/2)) (Num 80000) (Num 0) ''manual'' ''t3''
     = Inr (btc_tx 3 ''sell'' (1/2) 80000 ''t3''\<lparr>t_id := None\<rparr>, btc_after_sell)"
  by (simp add: eval_defs btc_two_buys_def btc_after_sell_def)

lemma run_btc_ledger: "run btc_ledger = btc_after_sell"
  by (simp add: btc_ledger_def eval_defs btc_after_sell_def)

lemma register_btc:
  "snd (add_holding init_db ''btc'' ''Bitcoin'' ''t0'')
     = \<lparr>holdings = [btc_row 0 0 0], holdings_seq = 1, transactions = [], prices = []\<rparr>"
  by (simp add: eval_defs)

subsection \<open>Rounding and ordering\<close>

lemma round_half_even_mono:
  assumes "x \<le> y"
  shows "round_half_even x \<le> round_half_even y"
proof (cases "\<lfloor>x\<rfloor> = \<lfloor>y\<rfloor>")
  case True
  with assms show ?thesis
    unfolding round_half_even_def Let_def by auto
next
  case False
  with assms have lt: "\<lfloor>x\<rfloor> + 1 \<le> \<lfloor>y\<rfloor>"
    using floor_mono [of x y] by linarith
  have "round_half_even x \<le> \<lfloor>x\<rfloor> + 1"
    unfolding round_half_even_def Let_def by auto
  moreover have "\<lfloor>y\<rfloor> \<le> round_half_even y"
    unfolding round_half_even_def Let_def by auto
  ultimately show ?thesis using lt by linarith
qed

lemma py_round_mono: "x \<le> y \<Longrightarrow> py_round x n \<le> py_round y n"
  unfolding py_round_def
  by (intro divide_right_mono round_half_even_mono mult_right_mono iffD2 [OF of_int_le_iff]) simp_all

lemma set_insert_desc: "set (insert_desc key x ys) = insert x (set ys)"
  by (induction ys) auto

lemma mset_insert_desc: "mset (insert_desc key x ys) = add_mset x (mset ys)"
  by (induction ys) auto

lemma sorted_insert_desc:
  "sorted_wrt (\<lambda>a b. key b \<le> key a) ys \<Longrightarrow> sorted_wrt (\<lambda>a b. key b \<le> key a) (insert_desc key x ys)"
  by (induction ys) (auto simp: set_insert_desc)

lemma mset_order_by_desc: "mset (order_by_desc key rows) = mset rows"
  unfolding order_by_desc_def by (induction rows) (simp_all add: mset_insert_desc)

lemma sorted_order_by_desc: "sorted_wrt (\<lambda>a b. key b \<le> key a) (order_by_desc key rows)"
  unfolding order_by_desc_def by (induction rows) (simp_all add: sorted_insert_desc)

lemma sorted_wrt_take_drop:
  "sorted_wrt P xs \<Longrightarrow> \<forall>r\<in>set (drop n xs). \<forall>r'\<in>set (take n xs). P r' r"
  using sorted_wrt_append [of P "take n xs" "drop n xs"] by simp

lemma digit_char_code: "digit_char 0 = CHR ''0''" "digit_char 1 = CHR ''1''"
  "digit_char 2 = CHR ''2''" "digit_char 3 = CHR ''3''" "digit_char 4 = CHR ''4''"
  "digit_char 5 = CHR ''5''" "digit_char 6 = CHR ''6''" "digit_char 7 = CHR ''7''"
  "digit_char 8 = CHR ''8''" "digit_char 9 = CHR ''9''" "digit_char (Suc 0) = CHR ''1''"
  by code_simp+

lemma format_zero:
  "format_2f False True 0 = ''0.00''" "format_2f True True 0 = ''+0.00''"
  "format_2f True False 0 = ''+0.00''"
  by (simp_all add: format_2f_def round_half_even_def digit_char_code)

subsection \<open>The read operations in closed form\<close>

text \<open>Every division is guarded: the three read operations always return.\<close>

lemma annotate_eq: "annotate h = Inr (entry_of h)"
  by (simp add: annotate_def entry_of_def Let_def py_div_def)

lemma annotate_rows_eq: "annotate_rows rows = Inr (map entry_of rows)"
  by (induction rows) (simp_all add: annotate_eq)

lemma get_portfolio_eq: "get_portfolio st = Inr (map entry_of (select_positions st))"
  by (simp add: get_portfolio_def annotate_rows_eq)

lemma truncate_entry_of: "holding.truncate (entry_of h) = h"
  by (simp add: entry_of_def holding.defs portfolio_entry.defs)

lemma entry_of_fields:
  "total_qty (entry_of h) = total_qty h" "current_price (entry_of h) = current_price h"
  "avg_cost (entry_of h) = avg_cost h"
  "market_value (entry_of h) = py_round (total_qty h * current_price h) 2"
  "cost_basis (entry_of h) = py_round (total_qty h * avg_cost h) 2"
  "unrealized_pnl (entry_of h) = py_round (total_qty h * current_price h - total_qty h * avg_cost h) 2"
  "pnl_pct (entry_of h) =
     py_round (if total_qty h * avg_cost h > 0
               then (total_qty h * current_price h - total_qty h * avg_cost h)
                    / (total_qty h * avg_cost h) * 100
               else 0) 2"
  by (simp_all add: entry_of_def holding.defs portfolio_entry.defs)

lemma mset_select_positions:
  "mset (select_positions st) = mset (filter (\<lambda>h. 0 < total_qty h) (holdings st))"
  by (simp add: select_positions_def mset_order_by_desc)

lemma sorted_select_positions:
  "sorted_wrt (\<lambda>a b. total_qty b * current_price b \<le> total_qty a * current_price a)
     (select_positions st)"
  unfolding select_positions_def by (rule sorted_order_by_desc)

lemma summarise_eq: "summarise pf = Inr (summary_of pf)"
  by (simp add: summarise_def summary_of_def Let_def py_div_def)

lemma calculate_pnl_eq:
  "calculate_pnl st = Inr (summary_of (map entry_of (select_positions st)))"
  by (simp add: calculate_pnl_def get_portfolio_eq summarise_eq)

lemma summary_of_empty: "summary_of [] = zero_summary"
  by (simp add: summary_of_def zero_summary_def format_zero)

lemma summary_of_zero_cost:
  "sum_list (map cost_basis pf) = 0 \<Longrightarrow> pnl_percentage (summary_of pf) = ''+0.00%''"
  by (simp add: summary_of_def Let_def format_zero)

lemma recent_transactions_props:
  "length (select_recent_transactions st) = min 200 (length (transactions st))"
  "sorted_wrt (\<lambda>a b. tx_date b \<le> tx_date a) (select_recent_transactions st)"
  "\<exists>older. mset (select_recent_transactions st @ older) = mset (transactions st)
      \<and> (\<forall>r\<in>set older. \<forall>r'\<in>set (select_recent_transactions st). tx_date r \<le> tx_date r')"
proof -
  let ?xs = "order_by_desc tx_date (transactions st)"
  have len: "length ?xs = length (transactions st)"
    using arg_cong [OF mset_order_by_desc [of tx_date "transactions st"], of size] by simp
  show "length (select_recent_transactions st) = min 200 (length (transactions st))"
    by (simp add: select_recent_transactions_def len min.commute)
  have sorted: "sorted_wrt (\<lambda>a b. tx_date b \<le> tx_date a) ?xs"
    by (rule sorted_order_by_desc)
  then show "sorted_wrt (\<lambda>a b. tx_date b \<le> tx_date a) (select_recent_transactions st)"
    unfolding select_recent_transactions_def by (rule sorted_wrt_take)
  have "mset (take 200 ?xs @ drop 200 ?xs) = mset (transactions st)"
    by (simp add: mset_order_by_desc)
  moreover have "\<forall>r\<in>set (drop 200 ?xs). \<forall>r'\<in>set (take 200 ?xs). tx_date r \<le> tx_date r'"
    using sorted by (rule sorted_wrt_take_drop)
  ultimately show "\<exists>older. mset (select_recent_transactions st @ older) = mset (transactions st)
      \<and> (\<forall>r\<in>set older. \<forall>r'\<in>set (select_recent_transactions st). tx_date r \<le> tx_date r')"
    unfolding select_recent_transactions_def by blast
qed

lemma export_report_eq:
  "export_report dumps st files output_path now =
     Inr (output_path,
          files(output_path \<mapsto>
            dumps \<lparr>exported_at = now, generator = ''BlackRoad Crypto Tracker v1.0'',
                   r_pnl_summary = summary_of (map entry_of (select_positions st)),
                   portfolio = map entry_of (select_positions st),
                   recent_transactions = select_recent_transactions st\<rparr>))"
  by (simp add: export_report_def calculate_pnl_eq get_portfolio_eq Let_def)

subsection \<open>Evaluating the three-asset ledger\<close>

lemma upper_eth: "upper ''eth'' = ''ETH''"
  by code_simp

lemma upper_sol: "upper ''sol'' = ''SOL''"
  by code_simp

lemma run_append: "run (xs @ ys) = foldl execute (run xs) ys"
  by (simp add: run_def)

lemmas ledger_defs = eth_row_def sol_row_def ledger_tx_def ledger_price_def upper_eth upper_sol

lemma run_three_assets_ledger: "run three_assets_ledger = three_assets"
  unfolding three_assets_ledger_def run_append run_btc_ledger
  by (simp add: eval_defs ledger_defs btc_after_sell_def three_assets_def)

lemma select_positions_three_assets:
  "select_positions three_assets = [sol_row 1000 100 (150123/1000), btc_row (3/2) 80000 65000]"
  by (simp add: select_positions_def order_by_desc_def three_assets_def btc_row_def ledger_defs)

lemma entry_of_sol:
  "entry_of (sol_row 1000 100 (150123/1000))
     = \<lparr>h_symbol = ''SOL'', name = ''Solana'', total_qty = 1000, avg_cost = 100,
        current_price = 150123/1000, created_at = ''t7'', h_id = Some 3,
        market_value = 150123, cost_basis = 100000, unrealized_pnl = 50123,
        pnl_pct = 5012/100\<rparr>"
  by (simp add: entry_of_def sol_row_def holding.defs portfolio_entry.defs py_round_def
        round_half_even_def)

lemma entry_of_btc:
  "entry_of (btc_row (3/2) 80000 65000)
     = \<lparr>h_symbol = ''BTC'', name = ''Bitcoin'', total_qty = 3/2, avg_cost = 80000,
        current_price = 65000, created_at = ''t0'', h_id = Some 1,
        market_value = 97500, cost_basis = 120000, unrealized_pnl = - 22500,
        pnl_pct = - (1875/100)\<rparr>"
  by (simp add: entry_of_def btc_row_def holding.defs portfolio_entry.defs py_round_def
        round_half_even_def)

lemma entry_of_gift:
  "entry_of (btc_row 1 0 65000)
     = \<lparr>h_symbol = ''BTC'', name = ''Bitcoin'', total_qty = 1, avg_cost = 0,
        current_price = 65000, created_at = ''t0'', h_id = Some 1,
        market_value = 65000, cost_basis = 0, unrealized_pnl = 65000, pnl_pct = 0\<rparr>"
  by (simp add: entry_of_def btc_row_def holding.defs portfolio_entry.defs py_round_def
        round_half_even_def)

lemma get_portfolio_gifted_coin: "get_portfolio gifted_coin = Inr [entry_of (btc_row 1 0 65000)]"
  by (simp add: get_portfolio_eq select_positions_def order_by_desc_def gifted_coin_def btc_row_def)

lemma get_portfolio_init_db: "get_portfolio init_db = Inr []"
  by (simp add: get_portfolio_eq select_positions_def order_by_desc_def init_db_def)

lemma format_gifted:
  "format_2f False True 65000 = ''65,000.00''" "format_2f True True 65000 = ''+65,000.00''"
  by (simp_all add: format_2f_def round_half_even_def digit_char_code)

lemma format_three_assets:
  "format_2f False True 247623 = ''247,623.00''"
  "format_2f False True 220000 = ''220,000.00''"
  "format_2f True True 27623 = ''+27,623.00''"
  "format_2f True False (27623 / 2200) = ''+12.56''"
  by (simp_all add: format_2f_def round_half_even_def digit_char_code)

lemma summary_of_gifted:
  "summary_of [entry_of (btc_row 1 0 65000)]
     = \<lparr>total_market_value = ''$65,000.00'', total_cost_basis = ''$0.00'',
              s_unrealized_pnl = ''$+65,000.00'', pnl_percentage = ''+0.00%'',
              winning_positions = 1, losing_positions = 0, total_positions = 1\<rparr>"
  by (simp add: summary_of_def Let_def entry_of_gift format_gifted format_zero)

lemma summary_of_three_assets:
  "summary_of [entry_of (sol_row 1000 100 (150123/1000)), entry_of (btc_row (3/2) 80000 65000)]
     = \<lparr>total_market_value = ''$247,623.00'', total_cost_basis = ''$220,000.00'',
            s_unrealized_pnl = ''$+27,623.00'', pnl_percentage = ''+12.56%'',
            winning_positions = 1, losing_positions = 1, total_positions = 2\<rparr>"
  by (simp add: summary_of_def Let_def entry_of_sol entry_of_btc format_three_assets)

lemma select_recent_three_assets:
  "select_recent_transactions three_assets =
        [ledger_tx 6 ''SOL'' ''buy'' 1000 100 ''t7'', ledger_tx 5 ''ETH'' ''sell'' 2 3000 ''t6'',
         ledger_tx 4 ''ETH'' ''buy'' 2 2000 ''t5'', btc_tx 3 ''sell'' (1/2) 80000 ''t3'',
         btc_tx 2 ''buy'' 1 70000 ''t2'', btc_tx 1 ''buy'' 1 50000 ''t1'']"
  by (simp add: select_recent_transactions_def order_by_desc_def three_assets_def btc_tx_def
        ledger_tx_def)

lemma export_three_assets:
  "export_report (\<lambda>d. d) three_assets Map.empty ''crypto_report.json'' ''t9''
     = Inr (''crypto_report.json'', [''crypto_report.json'' \<mapsto> sample_report])"
  unfolding export_report_eq select_positions_three_assets select_recent_three_assets
    list.map summary_of_three_assets sample_report_def ..

subsection \<open>The holding aggregate is a fold over the history\<close>

text \<open>
  C1. Every call of \<^verbatim>\<open>record_transaction\<close> with a number for the quantity and the
  price returns and appends the transaction built from its arguments to the table.
  The symbol's history is then every row of the table with that (upper-cased) symbol,
  the new one included. When that history consists of buys and sells, every stored
  holding of the symbol carries the fold of the specification over it: its
  \<^verbatim>\<open>total_qty\<close> is the fold's quantity clamped at 0, its \<^verbatim>\<open>avg_cost\<close> is the fold's
  cost divided by the fold's quantity and rounded to 8 decimals when that quantity is
  positive, and 0 otherwise.
\<close>

theorem record_transaction_aggregate_is_fold:
  "\<exists>tx st'. record_transaction st symbol ty (Num qty) (Num price) fee exch now = Inr (tx, st') \<and>
     tx = \<lparr>t_symbol = upper symbol, tx_type = ty, quantity = qty, t_price_usd = price,
           fee_usd = fee, exchange = exch, tx_date = now, t_id = None\<rparr> \<and>
     transactions st' = transactions st @ [tx\<lparr>t_id := Some (Suc (length (transactions st)))\<rparr>] \<and>
     (let rows = filter (\<lambda>r. t_symbol r = upper symbol) (transactions st');
          q = fst (spec_aggregate rows);
          c = snd (spec_aggregate rows)
      in (\<forall>r\<in>set rows. tx_type r = ''buy'' \<or> tx_type r = ''sell'') \<longrightarrow>
         (\<forall>h\<in>set (holdings st'). h_symbol h = upper symbol \<longrightarrow>
            total_qty h = max 0 q \<and> avg_cost h = (if q > 0 then py_round (c / q) 8 else 0)))"
proof -
  obtain tx st' where
    res: "record_transaction st symbol ty (Num qty) (Num price) fee exch now = Inr (tx, st')"
    using record_transaction_returns by blast
  define rows where "rows = filter (\<lambda>r. t_symbol r = upper symbol) (transactions st')"
  have sel: "select_transactions st' (upper symbol) = rows"
    unfolding rows_def by (rule select_transactions_filter)
  have tx: "tx = \<lparr>t_symbol = upper symbol, tx_type = ty, quantity = qty, t_price_usd = price,
           fee_usd = fee, exchange = exch, tx_date = now, t_id = None\<rparr>"
    unfolding record_transaction_result(1) [OF res] by (simp add: Transaction_def)
  have "total_qty h = max 0 (fst (spec_aggregate rows)) \<and>
        avg_cost h = (if fst (spec_aggregate rows) > 0
                      then py_round (snd (spec_aggregate rows) / fst (spec_aggregate rows)) 8 else 0)"
    if valid: "\<forall>r\<in>set rows. tx_type r = ''buy'' \<or> tx_type r = ''sell''"
      and mem: "h \<in> set (holdings st')" and sym: "h_symbol h = upper symbol" for h
  proof -
    from valid have agg: "spec_aggregate rows = (net_qty rows, buy_cost rows)"
      by (rule spec_aggregate_eq)
    from record_transaction_persisted [OF res mem sym]
    have "total_qty h = max 0 (net_qty rows)
        \<and> avg_cost h = py_round (if net_qty rows > 0 then buy_cost rows / net_qty rows else 0) 8"
      unfolding sel .
    then show ?thesis
      unfolding agg by (simp add: py_round_zero)
  qed
  then have "let rows = filter (\<lambda>r. t_symbol r = upper symbol) (transactions st');
          q = fst (spec_aggregate rows);
          c = snd (spec_aggregate rows)
      in (\<forall>r\<in>set rows. tx_type r = ''buy'' \<or> tx_type r = ''sell'') \<longrightarrow>
         (\<forall>h\<in>set (holdings st'). h_symbol h = upper symbol \<longrightarrow>
            total_qty h = max 0 q \<and> avg_cost h = (if q > 0 then py_round (c / q) 8 else 0))"
    unfolding Let_def rows_def by blast
  with res tx transactions_record_transaction [OF res] show ?thesis by blast
qed

text \<open>
  Half a Bitcoin bought at 100000 on the three-asset ledger: the Bitcoin rows alone,
  four of the seven in the table, fold to a quantity of 2 and a cost of 170000, and
  the stored Bitcoin row holds 2 coins at an average cost of 85000.
\<close>

theorem record_transaction_aggregate_is_fold_witness:
  "record_transaction three_assets ''btc'' ''buy'' (Num (1/2)) (Num 100000) (Num 0) ''manual'' ''t9''
     = Inr (btc_tx 7 ''buy'' (1/2) 100000 ''t9''\<lparr>t_id := None\<rparr>,
            three_assets
              \<lparr>holdings := [btc_row 2 85000 65000, eth_row 0 0 3000, sol_row 1000 100 (150123/1000)],
               transactions := transactions three_assets @ [btc_tx 7 ''buy'' (1/2) 100000 ''t9'']\<rparr>)
   \<and> map t_symbol (transactions three_assets @ [btc_tx 7 ''buy'' (1/2) 100000 ''t9''])
       = [upper ''btc'', upper ''btc'', upper ''btc'', ''ETH'', ''ETH'', ''SOL'', upper ''btc'']
   \<and> map tx_type (filter (\<lambda>r. t_symbol r = upper ''btc'')
                     (transactions three_assets @ [btc_tx 7 ''buy'' (1/2) 100000 ''t9'']))
       = [''buy'', ''buy'', ''sell'', ''buy'']
   \<and> spec_aggregate (filter (\<lambda>r. t_symbol r = upper ''btc'')
                        (transactions three_assets @ [btc_tx 7 ''buy'' (1/2) 100000 ''t9'']))
       = (2, 170000)
   \<and> h_symbol (btc_row 2 85000 65000) = upper ''btc''
   \<and> total_qty (btc_row 2 85000 65000) = max 0 2
   \<and> avg_cost (btc_row 2 85000 65000) = py_round (170000 / 2) 8"
proof -
  let ?txs = "transactions three_assets @ [btc_tx 7 ''buy'' (1/2) 100000 ''t9'']"
  let ?st = "three_assets
              \<lparr>holdings := [btc_row 2 85000 65000, eth_row 0 0 3000, sol_row 1000 100 (150123/1000)],
               transactions := ?txs\<rparr>"
  have call: "record_transaction three_assets ''btc'' ''buy'' (Num (1/2)) (Num 100000) (Num 0)
                ''manual'' ''t9''
              = Inr (btc_tx 7 ''buy'' (1/2) 100000 ''t9''\<lparr>t_id := None\<rparr>, ?st)"
    by (simp add: eval_defs ledger_defs three_assets_def)
  have syms: "map t_symbol ?txs
       = [upper ''btc'', upper ''btc'', upper ''btc'', ''ETH'', ''ETH'', ''SOL'', upper ''btc'']"
    by (simp add: three_assets_def btc_tx_def ledger_tx_def upper_btc)
  have types: "map tx_type (filter (\<lambda>r. t_symbol r = upper ''btc'') ?txs)
                 = [''buy'', ''buy'', ''sell'', ''buy'']"
    by (simp add: three_assets_def btc_tx_def ledger_tx_def upper_btc)
  have valid: "\<forall>r\<in>set (filter (\<lambda>r. t_symbol r = upper ''btc'') ?txs).
                 tx_type r = ''buy'' \<or> tx_type r = ''sell''"
    by (simp add: three_assets_def btc_tx_def ledger_tx_def upper_btc)
  have agg: "spec_aggregate (filter (\<lambda>r. t_symbol r = upper ''btc'') ?txs) = (2, 170000)"
    by (simp add: three_assets_def btc_tx_def ledger_tx_def upper_btc)
  have sym: "h_symbol (btc_row 2 85000 65000) = upper ''btc''"
    by (simp add: btc_row_def upper_btc)
  have mem: "btc_row 2 85000 65000 \<in> set (holdings ?st)"
    by simp
  have txs: "transactions ?st = ?txs"
    by simp
  from record_transaction_aggregate_is_fold
         [of three_assets "''btc''" "''buy''" "1/2" 100000 "Num 0" "''manual''" "''t9''"]
  obtain tx st' where
    res: "record_transaction three_assets ''btc'' ''buy'' (Num (1/2)) (Num 100000) (Num 0)
            ''manual'' ''t9'' = Inr (tx, st')"
    and fold: "let rows = filter (\<lambda>r. t_symbol r = upper ''btc'') (transactions st');
          q = fst (spec_aggregate rows);
          c = snd (spec_aggregate rows)
      in (\<forall>r\<in>set rows. tx_type r = ''buy'' \<or> tx_type r = ''sell'') \<longrightarrow>
         (\<forall>h\<in>set (holdings st'). h_symbol h = upper ''btc'' \<longrightarrow>
            total_qty h = max 0 q \<and> avg_cost h = (if q > 0 then py_round (c / q) 8 else 0))"
    by blast
  from res have st': "st' = ?st"
    unfolding call by simp
  from fold valid mem sym
  have "total_qty (btc_row 2 85000 65000)
          = max 0 (fst (spec_aggregate (filter (\<lambda>r. t_symbol r = upper ''btc'') ?txs)))
      \<and> avg_cost (btc_row 2 85000 65000)
          = (if fst (spec_aggregate (filter (\<lambda>r. t_symbol r = upper ''btc'') ?txs)) > 0
             then py_round (snd (spec_aggregate (filter (\<lambda>r. t_symbol r = upper ''btc'') ?txs))
                            / fst (spec_aggregate (filter (\<lambda>r. t_symbol r = upper ''btc'') ?txs))) 8
             else 0)"
    unfolding st' Let_def txs by blast
  then have "total_qty (btc_row 2 85000 65000) = max 0 2
      \<and> avg_cost (btc_row 2 85000 65000) = py_round (170000 / 2) 8"
    unfolding agg by simp
  with call syms types agg sym show ?thesis by simp
qed

subsection \<open>Quantities are never negative\<close>

text \<open>
  C2. After any sequence of calls from the fresh database no stored \<^verbatim>\<open>total_qty\<close> is
  negative. A sell with a number for the quantity and the price does not raise: it
  returns, its row is appended to the transactions, and the quantities stay
  non-negative. The quantity tracked for a symbol is that of the transaction log, the
  source of truth of the specification: the quantities of the symbol's buys minus
  those of its other rows, clamped at 0. When the quantity sold exceeds it, the stored
  \<^verbatim>\<open>total_qty\<close> of the symbol becomes 0.
\<close>

theorem total_qty_never_negative:
  "(\<forall>h\<in>set (holdings (run cmds)). 0 \<le> total_qty h)
   \<and> (\<exists>tx st'.
         record_transaction (run cmds) symbol ''sell'' (Num qty) (Num price) fee exch now
           = Inr (tx, st')
       \<and> t_symbol tx = upper symbol \<and> tx_type tx = ''sell'' \<and> quantity tx = qty
       \<and> transactions st'
           = transactions (run cmds) @ [tx\<lparr>t_id := Some (Suc (length (transactions (run cmds))))\<rparr>]
       \<and> (\<forall>h\<in>set (holdings st'). 0 \<le> total_qty h)
       \<and> (let rows = filter (\<lambda>r. t_symbol r = upper symbol) (transactions (run cmds));
               tracked = max 0 (sum_list (map quantity (filter (\<lambda>r. tx_type r = ''buy'') rows))
                                - sum_list (map quantity (filter (\<lambda>r. tx_type r \<noteq> ''buy'') rows)))
           in tracked < qty \<longrightarrow>
                (\<forall>h\<in>set (holdings st'). h_symbol h = upper symbol \<longrightarrow> total_qty h = 0)))"
proof -
  obtain tx st' where
    res: "record_transaction (run cmds) symbol ''sell'' (Num qty) (Num price) fee exch now
            = Inr (tx, st')"
    using record_transaction_returns by blast
  note inv = run_nonneg [of cmds]
  have tx: "t_symbol tx = upper symbol \<and> tx_type tx = ''sell'' \<and> quantity tx = qty"
    unfolding record_transaction_result(1) [OF res] by (simp add: Transaction_def)
  have "max 0 (net_qty (select_transactions (run cmds) (upper symbol))) < qty \<longrightarrow>
          (\<forall>h\<in>set (holdings st'). h_symbol h = upper symbol \<longrightarrow> total_qty h = 0)"
    using oversell_clamped [OF res] by blast
  then have over:
    "let rows = filter (\<lambda>r. t_symbol r = upper symbol) (transactions (run cmds));
         tracked = max 0 (sum_list (map quantity (filter (\<lambda>r. tx_type r = ''buy'') rows))
                          - sum_list (map quantity (filter (\<lambda>r. tx_type r \<noteq> ''buy'') rows)))
     in tracked < qty \<longrightarrow>
          (\<forall>h\<in>set (holdings st'). h_symbol h = upper symbol \<longrightarrow> total_qty h = 0)"
    unfolding Let_def select_transactions_filter net_qty_def sum_list_split_buy .
  from inv res tx transactions_record_transaction [OF res] record_transaction_nonneg [OF res inv] over
  show ?thesis by blast
qed

text \<open>
  Selling 2 Bitcoin out of the 1.5 tracked on the three-asset ledger: the sale is
  recorded and the Bitcoin row is clamped to 0, the other rows being untouched.
\<close>

theorem total_qty_never_negative_witness:
  "map total_qty (holdings (run three_assets_ledger)) = [3/2, 0, 1000]
   \<and> map quantity (filter (\<lambda>r. tx_type r = ''buy'')
         (filter (\<lambda>r. t_symbol r = upper ''btc'') (transactions (run three_assets_ledger))))
       = [1, 1]
   \<and> map quantity (filter (\<lambda>r. tx_type r \<noteq> ''buy'')
         (filter (\<lambda>r. t_symbol r = upper ''btc'') (transactions (run three_assets_ledger))))
       = [1/2]
   \<and> max 0 (sum_list [1, 1] - sum_list [1/2]) < (2::real)
   \<and> record_transaction (run three_assets_ledger) ''btc'' ''sell'' (Num 2) (Num 80000) (Num 0)
         ''manual'' ''t9''
       = Inr (btc_tx 7 ''sell'' 2 80000 ''t9''\<lparr>t_id := None\<rparr>,
              three_assets
                \<lparr>holdings := [btc_row 0 0 65000, eth_row 0 0 3000, sol_row 1000 100 (150123/1000)],
                 transactions := transactions three_assets @ [btc_tx 7 ''sell'' 2 80000 ''t9'']\<rparr>)"
proof -
  have a: "map total_qty (holdings (run three_assets_ledger)) = [3/2, 0, 1000]"
    unfolding run_three_assets_ledger by (simp add: three_assets_def btc_row_def ledger_defs)
  have b: "map quantity (filter (\<lambda>r. tx_type r = ''buy'')
         (filter (\<lambda>r. t_symbol r = upper ''btc'') (transactions (run three_assets_ledger))))
       = [1, 1]"
    unfolding run_three_assets_ledger
    by (simp add: three_assets_def btc_tx_def ledger_tx_def upper_btc)
  have c: "map quantity (filter (\<lambda>r. tx_type r \<noteq> ''buy'')
         (filter (\<lambda>r. t_symbol r = upper ''btc'') (transactions (run three_assets_ledger))))
       = [1/2]"
    unfolding run_three_assets_ledger
    by (simp add: three_assets_def btc_tx_def ledger_tx_def upper_btc)
  have d: "max 0 (sum_list [1, 1] - sum_list [1/2]) < (2::real)"
    by simp
  have e: "record_transaction (run three_assets_ledger) ''btc'' ''sell'' (Num 2) (Num 80000) (Num 0)
         ''manual'' ''t9''
       = Inr (btc_tx 7 ''sell'' 2 80000 ''t9''\<lparr>t_id := None\<rparr>,
              three_assets
                \<lparr>holdings := [btc_row 0 0 65000, eth_row 0 0 3000, sol_row 1000 100 (150123/1000)],
                 transactions := transactions three_assets @ [btc_tx 7 ''sell'' 2 80000 ''t9'']\<rparr>)"
    unfolding run_three_assets_ledger by (simp add: eval_defs ledger_defs three_assets_def)
  from total_qty_never_negative
         [of three_assets_ledger "''btc''" 2 80000 "Num 0" "''manual''" "''t9''"] a b c d e
  show ?thesis by simp
qed

subsection \<open>What is rejected\<close>

text \<open>
  C3, as the code has it. \<^verbatim>\<open>record_transaction\<close> checks neither the sign of the
  quantity nor the transaction type: for every number given as quantity and as price,
  zero and negative ones included, and for every type string, it returns the
  transaction built from its arguments and appends that row to the transactions. It
  fails, and leaves the database as it was, when the quantity or the price is NaN, and
  the error is the \<^verbatim>\<open>IntegrityError\<close> of the \<^verbatim>\<open>NOT NULL\<close> columns.
\<close>

theorem record_transaction_rejects_only_nan:
  "(qty = NaN \<or> price = NaN \<longrightarrow>
      record_transaction st symbol ty qty price fee exch now = Inl IntegrityError
      \<and> execute st (RecordTransaction symbol ty qty price fee exch now) = st)
   \<and> (\<forall>q p. qty = Num q \<and> price = Num p \<longrightarrow>
        (\<exists>tx st'. record_transaction st symbol ty qty price fee exch now = Inr (tx, st')
           \<and> tx = \<lparr>t_symbol = upper symbol, tx_type = ty, quantity = q, t_price_usd = p,
                    fee_usd = fee, exchange = exch, tx_date = now, t_id = None\<rparr>
           \<and> transactions st'
               = transactions st @ [tx\<lparr>t_id := Some (Suc (length (transactions st)))\<rparr>]))"
proof -
  have nan: "record_transaction st symbol ty qty price fee exch now = Inl IntegrityError
      \<and> execute st (RecordTransaction symbol ty qty price fee exch now) = st"
    if "qty = NaN \<or> price = NaN"
    using record_transaction_nan [OF that, of st symbol ty fee exch now] by simp
  have num: "\<exists>tx st'. record_transaction st symbol ty qty price fee exch now = Inr (tx, st')
           \<and> tx = \<lparr>t_symbol = upper symbol, tx_type = ty, quantity = q, t_price_usd = p,
                    fee_usd = fee, exchange = exch, tx_date = now, t_id = None\<rparr>
           \<and> transactions st'
               = transactions st @ [tx\<lparr>t_id := Some (Suc (length (transactions st)))\<rparr>]"
    if qp: "qty = Num q \<and> price = Num p" for q p
  proof -
    obtain tx st' where
      res: "record_transaction st symbol ty (Num q) (Num p) fee exch now = Inr (tx, st')"
      using record_transaction_returns by blast
    have "tx = \<lparr>t_symbol = upper symbol, tx_type = ty, quantity = q, t_price_usd = p,
               fee_usd = fee, exchange = exch, tx_date = now, t_id = None\<rparr>"
      unfolding record_transaction_result(1) [OF res] by (simp add: Transaction_def)
    with res transactions_record_transaction [OF res] qp show ?thesis by blast
  qed
  from nan num show ?thesis by blast
qed

text \<open>
  On two coins bought: a NaN quantity is refused and nothing is written, a quantity
  of -1 is taken.
\<close>

theorem record_transaction_rejects_only_nan_witness:
  "record_transaction btc_two_buys ''btc'' ''sell'' NaN (Num 80000) (Num 0) ''manual'' ''t3''
     = Inl IntegrityError
   \<and> execute btc_two_buys (RecordTransaction ''btc'' ''sell'' NaN (Num 80000) (Num 0) ''manual'' ''t3'')
     = btc_two_buys
   \<and> record_transaction btc_two_buys ''btc'' ''sell'' (Num (- 1)) (Num 80000) NaN ''manual'' ''t3''
     = Inr (\<lparr>t_symbol = upper ''btc'', tx_type = ''sell'', quantity = - 1, t_price_usd = 80000,
             fee_usd = NaN, exchange = ''manual'', tx_date = ''t3'', t_id = None\<rparr>,
            \<lparr>holdings = [btc_row 3 40000 0], holdings_seq = 1,
             transactions = transactions btc_two_buys
               @ [\<lparr>t_symbol = upper ''btc'', tx_type = ''sell'', quantity = - 1,
                   t_price_usd = 80000, fee_usd = NaN, exchange = ''manual'', tx_date = ''t3'',
                   t_id = Some 3\<rparr>],
             prices = []\<rparr>)"
proof -
  have call: "record_transaction btc_two_buys ''btc'' ''sell'' (Num (- 1)) (Num 80000) NaN
                ''manual'' ''t3''
     = Inr (\<lparr>t_symbol = upper ''btc'', tx_type = ''sell'', quantity = - 1, t_price_usd = 80000,
             fee_usd = NaN, exchange = ''manual'', tx_date = ''t3'', t_id = None\<rparr>,
            \<lparr>holdings = [btc_row 3 40000 0], holdings_seq = 1,
             transactions = transactions btc_two_buys
               @ [\<lparr>t_symbol = upper ''btc'', tx_type = ''sell'', quantity = - 1,
                   t_price_usd = 80000, fee_usd = NaN, exchange = ''manual'', tx_date = ''t3'',
                   t_id = Some 3\<rparr>],
             prices = []\<rparr>)"
    by (simp add: eval_defs btc_two_buys_def)
  from record_transaction_rejects_only_nan
         [of NaN "Num 80000" btc_two_buys "''btc''" "''sell''" "Num 0" "''manual''" "''t3''"]
       record_transaction_rejects_only_nan
         [of "Num (- 1)" "Num 80000" btc_two_buys "''btc''" "''sell''" NaN "''manual''" "''t3''"]
       call
  show ?thesis by simp
qed

text \<open>
  A buy of quantity 0 and a transaction of type \<^verbatim>\<open>hodl\<close> with quantity -1 both return
  and write their row; the second also moves the holding from 2 coins at 60000 to
  3 coins at 40000.
\<close>

theorem record_transaction_invalid_input_counterexample:
  "record_transaction btc_two_buys ''btc'' ''buy'' (Num 0) (Num 80000) (Num 0) ''manual'' ''t3''
     = Inr (btc_tx 3 ''buy'' 0 80000 ''t3''\<lparr>t_id := None\<rparr>,
            btc_two_buys\<lparr>transactions :=
              transactions btc_two_buys @ [btc_tx 3 ''buy'' 0 80000 ''t3'']\<rparr>)
   \<and> record_transaction btc_two_buys ''btc'' ''hodl'' (Num (- 1)) (Num 80000) (Num 0) ''manual'' ''t3''
     = Inr (btc_tx 3 ''hodl'' (- 1) 80000 ''t3''\<lparr>t_id := None\<rparr>,
            \<lparr>holdings = [btc_row 3 40000 0], holdings_seq = 1,
             transactions = transactions btc_two_buys @ [btc_tx 3 ''hodl'' (- 1) 80000 ''t3''],
             prices = []\<rparr>)"
  by (simp add: eval_defs btc_two_buys_def)

subsection \<open>Registration\<close>

text \<open>
  C7. Registering a symbol that is already registered (after upper-casing) leaves the
  three tables as they were: the stored row keeps its name, its \<^verbatim>\<open>created_at\<close> and
  every other field.
\<close>

theorem add_holding_idempotent:
  "upper symbol \<in> set (map h_symbol (holdings st)) \<Longrightarrow>
     holdings (snd (add_holding st symbol nm now)) = holdings st
     \<and> transactions (snd (add_holding st symbol nm now)) = transactions st
     \<and> prices (snd (add_holding st symbol nm now)) = prices st"
  by (simp add: add_holding_existing)

text \<open>Bitcoin registered at \<open>t0\<close>, and again at \<open>t9\<close> under another name and spelling.\<close>

theorem add_holding_idempotent_witness:
  "holdings (snd (add_holding init_db ''btc'' ''Bitcoin'' ''t0'')) = [btc_row 0 0 0]
   \<and> upper ''Btc'' = ''BTC''
   \<and> holdings (snd (add_holding (snd (add_holding init_db ''btc'' ''Bitcoin'' ''t0''))
                      ''Btc'' ''Bitcoin Core'' ''t9'')) = [btc_row 0 0 0]
   \<and> name (btc_row 0 0 0) = ''Bitcoin'' \<and> created_at (btc_row 0 0 0) = ''t0''"
proof -
  have up: "upper ''Btc'' = ''BTC''" by code_simp
  have reg: "upper ''Btc''
               \<in> set (map h_symbol (holdings (snd (add_holding init_db ''btc'' ''Bitcoin'' ''t0''))))"
    unfolding register_btc up by (simp add: btc_row_def)
  from add_holding_idempotent [OF reg, of "''Bitcoin Core''" "''t9''"] up show ?thesis
    unfolding register_btc by (simp add: btc_row_def)
qed

text \<open>
  C10. \<^verbatim>\<open>add_holding\<close> returns a holding built from its arguments alone: the
  upper-cased symbol, the name, zero quantity, cost and price, the current time and no
  id, whether or not the symbol is registered. On a registered symbol the table keeps
  its row, and the returned holding can differ from that row in \<^verbatim>\<open>created_at\<close>,
  \<^verbatim>\<open>total_qty\<close> and \<^verbatim>\<open>avg_cost\<close>.
\<close>

theorem add_holding_returns_fresh:
  "fst (add_holding st symbol nm now) =
     \<lparr>h_symbol = upper symbol, name = nm, total_qty = 0, avg_cost = 0, current_price = 0,
      created_at = now, h_id = None\<rparr>
   \<and> (upper symbol \<in> set (map h_symbol (holdings st)) \<longrightarrow>
        holdings (snd (add_holding st symbol nm now)) = holdings st)
   \<and> (\<exists>st0 symbol0 nm0 now0 h.
         h \<in> set (holdings (snd (add_holding st0 symbol0 nm0 now0)))
         \<and> h_symbol h = h_symbol (fst (add_holding st0 symbol0 nm0 now0))
         \<and> created_at h \<noteq> created_at (fst (add_holding st0 symbol0 nm0 now0))
         \<and> total_qty h \<noteq> total_qty (fst (add_holding st0 symbol0 nm0 now0))
         \<and> avg_cost h \<noteq> avg_cost (fst (add_holding st0 symbol0 nm0 now0)))"
proof -
  have reg: "upper ''btc'' \<in> set (map h_symbol (holdings btc_after_sell))"
    by (simp add: btc_after_sell_def btc_row_def upper_btc)
  have "btc_row (3/2) 80000 0
          \<in> set (holdings (snd (add_holding btc_after_sell ''btc'' ''Bitcoin'' ''t9'')))"
    unfolding add_holding_existing [OF reg] by (simp add: btc_after_sell_def)
  moreover have "h_symbol (btc_row (3/2) 80000 0)
                   = h_symbol (fst (add_holding btc_after_sell ''btc'' ''Bitcoin'' ''t9''))"
    unfolding add_holding_returns by (simp add: btc_row_def upper_btc)
  moreover have "created_at (btc_row (3/2) 80000 0)
                   \<noteq> created_at (fst (add_holding btc_after_sell ''btc'' ''Bitcoin'' ''t9''))"
    unfolding add_holding_returns by (simp add: btc_row_def)
  moreover have "total_qty (btc_row (3/2) 80000 0)
                   \<noteq> total_qty (fst (add_holding btc_after_sell ''btc'' ''Bitcoin'' ''t9''))"
    unfolding add_holding_returns by (simp add: btc_row_def)
  moreover have "avg_cost (btc_row (3/2) 80000 0)
                   \<noteq> avg_cost (fst (add_holding btc_after_sell ''btc'' ''Bitcoin'' ''t9''))"
    unfolding add_holding_returns by (simp add: btc_row_def)
  ultimately have ex: "\<exists>st0 symbol0 nm0 now0 h.
         h \<in> set (holdings (snd (add_holding st0 symbol0 nm0 now0)))
         \<and> h_symbol h = h_symbol (fst (add_holding st0 symbol0 nm0 now0))
         \<and> created_at h \<noteq> created_at (fst (add_holding st0 symbol0 nm0 now0))
         \<and> total_qty h \<noteq> total_qty (fst (add_holding st0 symbol0 nm0 now0))
         \<and> avg_cost h \<noteq> avg_cost (fst (add_holding st0 symbol0 nm0 now0))"
    by blast
  have "upper symbol \<in> set (map h_symbol (holdings st)) \<longrightarrow>
        holdings (snd (add_holding st symbol nm now)) = holdings st"
    by (simp add: add_holding_existing)
  with ex add_holding_returns [of st symbol nm now] show ?thesis by blast
qed

text \<open>Registering Bitcoin again at \<open>t9\<close>, on the worked ledger.\<close>

theorem add_holding_returns_fresh_witness:
  "map h_symbol (holdings btc_after_sell) = [upper ''btc'']
   \<and> fst (add_holding btc_after_sell ''btc'' ''Bitcoin'' ''t9'')
       = \<lparr>h_symbol = ''BTC'', name = ''Bitcoin'', total_qty = 0, avg_cost = 0, current_price = 0,
          created_at = ''t9'', h_id = None\<rparr>
   \<and> holdings (snd (add_holding btc_after_sell ''btc'' ''Bitcoin'' ''t9''))
       = [\<lparr>h_symbol = ''BTC'', name = ''Bitcoin'', total_qty = 3/2, avg_cost = 80000,
           current_price = 0, created_at = ''t0'', h_id = Some 1\<rparr>]"
proof -
  have reg: "map h_symbol (holdings btc_after_sell) = [upper ''btc'']"
    by (simp add: btc_after_sell_def btc_row_def upper_btc)
  from add_holding_returns_fresh [of btc_after_sell "''btc''" "''Bitcoin''" "''t9''"] reg
  show ?thesis
    by (simp add: upper_btc btc_after_sell_def btc_row_def)
qed

subsection \<open>A type other than buy is a sell\<close>

text \<open>
  C9. In the recomputation a row whose type is not exactly \<^verbatim>\<open>buy\<close> takes its quantity
  off the running quantity and leaves the running cost; over a whole history the loop
  yields the quantities of the buys minus the quantities of all other rows, and the
  cost of the buys. That quantity, clamped at 0, is what \<^verbatim>\<open>record_transaction\<close> stores.
\<close>

theorem non_buy_processed_as_sell:
  "(tx_type r \<noteq> ''buy'' \<longrightarrow>
      accumulate (qty_total, cost_total) r = (qty_total - quantity r, cost_total))
   \<and> foldl accumulate (0, 0) rows =
       (sum_list (map quantity (filter (\<lambda>r. tx_type r = ''buy'') rows))
        - sum_list (map quantity (filter (\<lambda>r. tx_type r \<noteq> ''buy'') rows)),
        sum_list (map (\<lambda>r. quantity r * t_price_usd r) (filter (\<lambda>r. tx_type r = ''buy'') rows)))
   \<and> (\<exists>tx st'. record_transaction st symbol ty (Num qty) (Num price) fee exch now = Inr (tx, st')
        \<and> (\<forall>h\<in>set (holdings st'). h_symbol h = upper symbol \<longrightarrow>
              total_qty h =
                max 0 (sum_list (map quantity (filter (\<lambda>r. tx_type r = ''buy'')
                                   (select_transactions st' (upper symbol))))
                       - sum_list (map quantity (filter (\<lambda>r. tx_type r \<noteq> ''buy'')
                                     (select_transactions st' (upper symbol)))))))"
proof -
  obtain tx st' where res: "record_transaction st symbol ty (Num qty) (Num price) fee exch now = Inr (tx, st')"
    using record_transaction_returns by blast
  have "\<forall>h\<in>set (holdings st'). h_symbol h = upper symbol \<longrightarrow>
              total_qty h =
                max 0 (sum_list (map quantity (filter (\<lambda>r. tx_type r = ''buy'')
                                   (select_transactions st' (upper symbol))))
                       - sum_list (map quantity (filter (\<lambda>r. tx_type r \<noteq> ''buy'')
                                     (select_transactions st' (upper symbol)))))"
    using record_transaction_persisted [OF res]
    unfolding net_qty_def sum_list_split_buy by blast
  with res have "\<exists>tx st'. record_transaction st symbol ty (Num qty) (Num price) fee exch now = Inr (tx, st')
        \<and> (\<forall>h\<in>set (holdings st'). h_symbol h = upper symbol \<longrightarrow>
              total_qty h =
                max 0 (sum_list (map quantity (filter (\<lambda>r. tx_type r = ''buy'')
                                   (select_transactions st' (upper symbol))))
                       - sum_list (map quantity (filter (\<lambda>r. tx_type r \<noteq> ''buy'')
                                     (select_transactions st' (upper symbol))))))"
    by blast
  then show ?thesis
    by (simp add: foldl_accumulate sum_list_split_buy sum_list_buy_cost)
qed

text \<open>
  Rows of type \<^verbatim>\<open>SELL\<close>, \<^verbatim>\<open>Buy\<close> and \<^verbatim>\<open>gift\<close> are all subtracted, and a \<^verbatim>\<open>SELL\<close> of half
  a coin on two coins bought leaves 1.5 coins at 80000, as a \<^verbatim>\<open>sell\<close> does.
\<close>

theorem non_buy_processed_as_sell_witness:
  "tx_type (btc_tx 3 ''SELL'' (1/2) 80000 ''t3'') \<noteq> ''buy''
   \<and> accumulate (2, 120000) (btc_tx 3 ''SELL'' (1/2) 80000 ''t3'') = (3/2, 120000)
   \<and> foldl accumulate (0, 0)
        [btc_tx 1 ''buy'' 2 60000 ''t1'', btc_tx 2 ''Buy'' (1/4) 1 ''t2'',
         btc_tx 3 ''SELL'' (1/4) 1 ''t3'', btc_tx 4 ''gift'' (1/2) 0 ''t4''] = (1, 120000)
   \<and> record_transaction btc_two_buys ''btc'' ''SELL'' (Num (1/2)) (Num 80000) (Num 0) ''manual'' ''t3''
       = Inr (btc_tx 3 ''SELL'' (1/2) 80000 ''t3''\<lparr>t_id := None\<rparr>,
              \<lparr>holdings = [btc_row (3/2) 80000 0], holdings_seq = 1,
               transactions = transactions btc_two_buys @ [btc_tx 3 ''SELL'' (1/2) 80000 ''t3''],
               prices = []\<rparr>)"
proof -
  have rec: "record_transaction btc_two_buys ''btc'' ''SELL'' (Num (1/2)) (Num 80000) (Num 0) ''manual'' ''t3''
       = Inr (btc_tx 3 ''SELL'' (1/2) 80000 ''t3''\<lparr>t_id := None\<rparr>,
              \<lparr>holdings = [btc_row (3/2) 80000 0], holdings_seq = 1,
               transactions = transactions btc_two_buys @ [btc_tx 3 ''SELL'' (1/2) 80000 ''t3''],
               prices = []\<rparr>)"
    by (simp add: eval_defs btc_two_buys_def)
  from non_buy_processed_as_sell [of "btc_tx 3 ''SELL'' (1/2) 80000 ''t3''" 2 120000
          "[btc_tx 1 ''buy'' 2 60000 ''t1'', btc_tx 2 ''Buy'' (1/4) 1 ''t2'',
            btc_tx 3 ''SELL'' (1/4) 1 ''t3'', btc_tx 4 ''gift'' (1/2) 0 ''t4'']"
          btc_two_buys "''btc''" "''SELL''" "1/2" 80000 "Num 0" "''manual''" "''t3''"]
  have "tx_type (btc_tx 3 ''SELL'' (1/2) 80000 ''t3'') \<noteq> ''buy''
   \<and> accumulate (2, 120000) (btc_tx 3 ''SELL'' (1/2) 80000 ''t3'') = (3/2, 120000)
   \<and> foldl accumulate (0, 0)
        [btc_tx 1 ''buy'' 2 60000 ''t1'', btc_tx 2 ''Buy'' (1/4) 1 ''t2'',
         btc_tx 3 ''SELL'' (1/4) 1 ''t3'', btc_tx 4 ''gift'' (1/2) 0 ''t4''] = (1, 120000)"
    by (simp add: btc_tx_def)
  with rec show ?thesis by (simp add: btc_tx_def)
qed

subsection \<open>The portfolio\<close>

text \<open>
  C4. \<^verbatim>\<open>get_portfolio\<close> always returns. Its rows, stripped of the four added keys,
  are exactly the holdings with a positive \<^verbatim>\<open>total_qty\<close>; they are in descending order of
  \<^verbatim>\<open>market_value\<close>; and each row carries \<^verbatim>\<open>market_value\<close> = quantity times price,
  \<^verbatim>\<open>cost_basis\<close> = quantity times average cost, \<^verbatim>\<open>unrealized_pnl\<close> = their difference and
  \<^verbatim>\<open>pnl_pct\<close> = that difference over the cost basis times 100 when the cost basis is
  positive and 0 otherwise, each rounded to 2 decimals.
\<close>

theorem get_portfolio_positions:
  "\<exists>pf. get_portfolio st = Inr pf
     \<and> mset (map holding.truncate pf) = mset (filter (\<lambda>h. 0 < total_qty h) (holdings st))
     \<and> sorted_wrt (\<lambda>a b. market_value b \<le> market_value a) pf
     \<and> (\<forall>e\<in>set pf.
           0 < total_qty e
         \<and> market_value e = py_round (total_qty e * current_price e) 2
         \<and> cost_basis e = py_round (total_qty e * avg_cost e) 2
         \<and> unrealized_pnl e = py_round (total_qty e * current_price e - total_qty e * avg_cost e) 2
         \<and> pnl_pct e =
             (if total_qty e * avg_cost e > 0
              then py_round ((total_qty e * current_price e - total_qty e * avg_cost e)
                             / (total_qty e * avg_cost e) * 100) 2
              else 0))"
proof -
  let ?rows = "select_positions st"
  let ?pf = "map entry_of ?rows"
  have a: "mset (map holding.truncate ?pf) = mset (filter (\<lambda>h. 0 < total_qty h) (holdings st))"
    by (simp add: o_def truncate_entry_of mset_select_positions)
  have "sorted_wrt (\<lambda>a b. market_value (entry_of b) \<le> market_value (entry_of a)) ?rows"
    using sorted_select_positions [of st]
    by (rule sorted_wrt_mono_rel [rotated]) (simp add: entry_of_fields py_round_mono)
  then have b: "sorted_wrt (\<lambda>a b. market_value b \<le> market_value a) ?pf"
    by (simp add: sorted_wrt_map)
  have pos: "\<forall>h\<in>set ?rows. 0 < total_qty h"
    using arg_cong [OF mset_select_positions [of st], of set_mset] by auto
  have c: "\<forall>e\<in>set ?pf.
           0 < total_qty e
         \<and> market_value e = py_round (total_qty e * current_price e) 2
         \<and> cost_basis e = py_round (total_qty e * avg_cost e) 2
         \<and> unrealized_pnl e = py_round (total_qty e * current_price e - total_qty e * avg_cost e) 2
         \<and> pnl_pct e =
             (if total_qty e * avg_cost e > 0
              then py_round ((total_qty e * current_price e - total_qty e * avg_cost e)
                             / (total_qty e * avg_cost e) * 100) 2
              else 0)"
    using pos by (simp add: entry_of_fields py_round_zero)
  from a b c get_portfolio_eq [of st] show ?thesis by blast
qed

text \<open>
  On the three-asset ledger Ether, sold in full, is left out although it has
  transactions, and Solana, the larger position, comes before Bitcoin.
\<close>

theorem get_portfolio_positions_witness:
  "map total_qty (holdings three_assets) = [3/2, 0, 1000]
   \<and> get_portfolio three_assets
       = Inr [\<lparr>h_symbol = ''SOL'', name = ''Solana'', total_qty = 1000, avg_cost = 100,
               current_price = 150123/1000, created_at = ''t7'', h_id = Some 3,
               market_value = 150123, cost_basis = 100000, unrealized_pnl = 50123,
               pnl_pct = 5012/100\<rparr>,
              \<lparr>h_symbol = ''BTC'', name = ''Bitcoin'', total_qty = 3/2, avg_cost = 80000,
               current_price = 65000, created_at = ''t0'', h_id = Some 1,
               market_value = 97500, cost_basis = 120000, unrealized_pnl = - 22500,
               pnl_pct = - (1875/100)\<rparr>]"
proof -
  have a: "map total_qty (holdings three_assets) = [3/2, 0, 1000]"
    by (simp add: three_assets_def btc_row_def ledger_defs)
  have b: "get_portfolio three_assets
             = Inr [entry_of (sol_row 1000 100 (150123/1000)), entry_of (btc_row (3/2) 80000 65000)]"
    by (simp add: get_portfolio_eq select_positions_three_assets)
  from get_portfolio_positions [of three_assets] a b show ?thesis
    unfolding entry_of_sol entry_of_btc by simp
qed

subsection \<open>The summary\<close>

text \<open>
  C5. \<^verbatim>\<open>calculate_pnl\<close> never raises \<^verbatim>\<open>ZeroDivisionError\<close>: it always returns a
  summary. On an empty portfolio the summary is all zeros with no positions, and
  whenever the cost bases of the portfolio add up to 0 the percentage is \<^verbatim>\<open>+0.00%\<close>.
\<close>

theorem calculate_pnl_never_divides_by_zero:
  "(\<exists>s. calculate_pnl st = Inr s)
   \<and> (get_portfolio st = Inr [] \<longrightarrow> calculate_pnl st = Inr zero_summary)
   \<and> (get_portfolio st = Inr pf \<and> sum_list (map cost_basis pf) = 0 \<longrightarrow>
        (\<exists>s. calculate_pnl st = Inr s \<and> pnl_percentage s = ''+0.00%''))"
proof -
  have a: "\<exists>s. calculate_pnl st = Inr s"
    by (simp add: calculate_pnl_eq)
  have b: "calculate_pnl st = Inr zero_summary" if "get_portfolio st = Inr []"
    using that by (simp add: calculate_pnl_def summarise_eq summary_of_empty)
  have c: "\<exists>s. calculate_pnl st = Inr s \<and> pnl_percentage s = ''+0.00%''"
    if "get_portfolio st = Inr pf" and "sum_list (map cost_basis pf) = 0"
    using that by (simp add: calculate_pnl_def summarise_eq summary_of_zero_cost)
  from a b c show ?thesis by blast
qed

text \<open>The fresh database, and the coin received for free (a cost basis of 0).\<close>

theorem calculate_pnl_never_divides_by_zero_witness:
  "get_portfolio init_db = Inr []
   \<and> calculate_pnl init_db = Inr zero_summary
   \<and> get_portfolio gifted_coin = Inr [entry_of (btc_row 1 0 65000)]
   \<and> sum_list (map cost_basis [entry_of (btc_row 1 0 65000)]) = 0
   \<and> calculate_pnl gifted_coin
       = Inr \<lparr>total_market_value = ''$65,000.00'', total_cost_basis = ''$0.00'',
              s_unrealized_pnl = ''$+65,000.00'', pnl_percentage = ''+0.00%'',
              winning_positions = 1, losing_positions = 0, total_positions = 1\<rparr>"
proof -
  have cost: "sum_list (map cost_basis [entry_of (btc_row 1 0 65000)]) = 0"
    by (simp add: entry_of_gift)
  have summary: "calculate_pnl gifted_coin
       = Inr \<lparr>total_market_value = ''$65,000.00'', total_cost_basis = ''$0.00'',
              s_unrealized_pnl = ''$+65,000.00'', pnl_percentage = ''+0.00%'',
              winning_positions = 1, losing_positions = 0, total_positions = 1\<rparr>"
    by (simp add: calculate_pnl_def get_portfolio_gifted_coin summarise_eq summary_of_gifted)
  from calculate_pnl_never_divides_by_zero [of init_db "[]"] get_portfolio_init_db
  have zero: "calculate_pnl init_db = Inr zero_summary" by blast
  from calculate_pnl_never_divides_by_zero [of gifted_coin "[entry_of (btc_row 1 0 65000)]"]
       get_portfolio_gifted_coin cost
  have "\<exists>s. calculate_pnl gifted_coin = Inr s \<and> pnl_percentage s = ''+0.00%''" by blast
  with zero get_portfolio_init_db get_portfolio_gifted_coin cost summary
  show ?thesis by blast
qed

subsection \<open>The report\<close>

text \<open>
  C6. For a serialiser whose parser reads back what it wrote, as \<^verbatim>\<open>json.dumps\<close> and
  \<^verbatim>\<open>json.loads\<close> do, \<^verbatim>\<open>export_report\<close> returns the path, and the document read back
  from that path holds the summary \<^verbatim>\<open>calculate_pnl\<close> returns and the portfolio
  \<^verbatim>\<open>get_portfolio\<close> returns on the same store; its recent transactions are at most 200
  (all of them when there are fewer), in descending order of \<^verbatim>\<open>tx_date\<close>, taken from
  the transactions table, and none of the transactions left out is dated later than
  one that is included.
\<close>

theorem export_report_round_trip:
  assumes codec: "\<And>d. loads (dumps d) = Some d"
  shows "\<exists>files' doc.
           export_report dumps st files output_path now = Inr (output_path, files')
         \<and> (case files' output_path of None \<Rightarrow> None | Some text \<Rightarrow> loads text) = Some doc
         \<and> calculate_pnl st = Inr (r_pnl_summary doc)
         \<and> get_portfolio st = Inr (portfolio doc)
         \<and> length (recent_transactions doc) = min 200 (length (transactions st))
         \<and> sorted_wrt (\<lambda>a b. tx_date b \<le> tx_date a) (recent_transactions doc)
         \<and> (\<exists>older. mset (recent_transactions doc @ older) = mset (transactions st)
               \<and> (\<forall>r\<in>set older. \<forall>r'\<in>set (recent_transactions doc). tx_date r \<le> tx_date r'))"
proof -
  define doc where "doc = \<lparr>exported_at = now, generator = ''BlackRoad Crypto Tracker v1.0'',
                   r_pnl_summary = summary_of (map entry_of (select_positions st)),
                   portfolio = map entry_of (select_positions st),
                   recent_transactions = select_recent_transactions st\<rparr>"
  have ex: "export_report dumps st files output_path now
              = Inr (output_path, files(output_path \<mapsto> dumps doc))"
    unfolding doc_def by (rule export_report_eq)
  have rd: "(case (files(output_path \<mapsto> dumps doc)) output_path of None \<Rightarrow> None
             | Some text \<Rightarrow> loads text) = Some doc"
    by (simp add: codec)
  have pnl: "calculate_pnl st = Inr (r_pnl_summary doc)"
    by (simp add: doc_def calculate_pnl_eq)
  have pf: "get_portfolio st = Inr (portfolio doc)"
    by (simp add: doc_def get_portfolio_eq)
  have rec: "recent_transactions doc = select_recent_transactions st"
    by (simp add: doc_def)
  from ex rd pnl pf recent_transactions_props [of st, folded rec] show ?thesis
    by blast
qed

text \<open>The three-asset ledger exported at \<open>t9\<close>, the serialiser being the identity.\<close>

theorem export_report_round_trip_witness:
  "export_report (\<lambda>d. d) three_assets Map.empty ''crypto_report.json'' ''t9''
     = Inr (''crypto_report.json'', [''crypto_report.json'' \<mapsto> sample_report])
   \<and> calculate_pnl three_assets = Inr (r_pnl_summary sample_report)
   \<and> get_portfolio three_assets = Inr (portfolio sample_report)
   \<and> map tx_date (recent_transactions sample_report) = [''t7'', ''t6'', ''t5'', ''t3'', ''t2'', ''t1'']
   \<and> length (transactions three_assets) = 6"
proof -
  have codec: "\<And>d::report. Some ((\<lambda>d. d) d) = Some d" by simp
  from export_report_round_trip [of Some "\<lambda>d. d" three_assets Map.empty "''crypto_report.json''" "''t9''", OF codec]
  obtain files' doc where
    ex: "export_report (\<lambda>d. d) three_assets Map.empty ''crypto_report.json'' ''t9''
           = Inr (''crypto_report.json'', files')"
    and rd: "(case files' ''crypto_report.json'' of None \<Rightarrow> None | Some text \<Rightarrow> Some text) = Some doc"
    and pnl: "calculate_pnl three_assets = Inr (r_pnl_summary doc)"
    and pf: "get_portfolio three_assets = Inr (portfolio doc)"
    by blast
  from ex have files': "files' = [''crypto_report.json'' \<mapsto> sample_report]"
    unfolding export_three_assets by simp
  from rd have doc: "doc = sample_report"
    unfolding files' by simp
  have dates: "map tx_date (recent_transactions sample_report)
                 = [''t7'', ''t6'', ''t5'', ''t3'', ''t2'', ''t1'']"
    by (simp add: sample_report_def btc_tx_def ledger_tx_def)
  have len: "length (transactions three_assets) = 6"
    by (simp add: three_assets_def)
  from export_three_assets pnl pf dates len show ?thesis
    unfolding doc by blast
qed

subsection \<open>Price updates\<close>



end
